theory Spec2Isabelle
  imports Complex_Main "HOL-Library.AList" "HOL-Library.Extended_Nat" "HOL-Library.Multiset"
    "HOL-Library.Log_Nat"
begin

section \<open>Browser storage and common data\<close>

text \<open>
  A \<^verbatim>\<open>localStorage\<close> item, seen through \<^verbatim>\<open>getItem\<close> followed by
  \<^verbatim>\<open>JSON.parse\<close>: the key is absent (\<^verbatim>\<open>getItem\<close> gives \<^verbatim>\<open>null\<close>), its text does
  not parse, or it holds a document.
\<close>

datatype 'a stored = Missing | Malformed | Doc 'a

text \<open>\<^verbatim>\<open>Location\<close> objects as built by the weather client (a number is the rational that its double denotes).\<close>

record location =
  lat :: rat
  lon :: rat
  name :: string
  country :: string
  state :: "string option"

text \<open>The \<^verbatim>\<open>{location, weather}\<close> object returned by the weather client.\<close>

record 'w city_weather =
  location :: location
  weather :: 'w

section \<open>Search history (Weather page)\<close>

definition MAX_HISTORY_ITEMS :: nat where
  "MAX_HISTORY_ITEMS = 5"

text \<open>
  \<^verbatim>\<open>parseJSONSafely(value, fallback)\<close>: the fallback for an absent item and for one
  that does not parse.
\<close>

definition parseJSONSafely :: "'a stored \<Rightarrow> 'a \<Rightarrow> 'a" where
  "parseJSONSafely raw fallback =
     (case raw of Missing \<Rightarrow> fallback | Malformed \<Rightarrow> fallback | Doc v \<Rightarrow> v)"

text \<open>
  The part of the Weather component's state that the history code touches: the React
  state \<^verbatim>\<open>searchHistory\<close> and the \<^verbatim>\<open>localStorage\<close> item under
  \<^verbatim>\<open>SEARCH_HISTORY_KEY\<close>.
\<close>

record history_state =
  searchHistory :: "string list"
  history_item :: "string list stored"

definition readHistoryFromStorage :: "history_state \<Rightarrow> string list" where
  "readHistoryFromStorage st = parseJSONSafely (history_item st) []"

definition loadHistoryFromStorage :: "history_state \<Rightarrow> history_state" where
  "loadHistoryFromStorage st = st\<lparr>searchHistory := readHistoryFromStorage st\<rparr>"

definition cityIdentifier :: "'w city_weather \<Rightarrow> string" where
  "cityIdentifier cityData =
     name (location cityData) @ '', '' @ country (location cityData)"

text \<open>
  \<^verbatim>\<open>addToSearchHistory\<close>: the updater passed to \<^verbatim>\<open>setSearchHistory\<close>, applied to the
  previous state; it also rewrites the stored item (\<^verbatim>\<open>setItem\<close> has no handler in the
  source and is taken to succeed).
\<close>

definition addToSearchHistory :: "'w city_weather \<Rightarrow> history_state \<Rightarrow> history_state" where
  "addToSearchHistory cityData st =
     (let prev = searchHistory st;
          filtered = filter (\<lambda>item. item \<noteq> cityIdentifier cityData) prev;
          newHistory = take MAX_HISTORY_ITEMS (cityIdentifier cityData # filtered)
      in st\<lparr>searchHistory := newHistory, history_item := Doc newHistory\<rparr>)"

definition clearSearchHistory :: "history_state \<Rightarrow> history_state" where
  "clearSearchHistory st = st\<lparr>searchHistory := [], history_item := Missing\<rparr>"

text \<open>The component mounts with an empty history and, here, an empty storage.\<close>

definition initial_history :: history_state where
  "initial_history = \<lparr>searchHistory = [], history_item = Missing\<rparr>"

text \<open>The operations on the history, and a run of a sequence of them.\<close>

datatype 'w history_op = Add "'w city_weather" | Load | Clear

fun history_step :: "'w history_op \<Rightarrow> history_state \<Rightarrow> history_state" where
  "history_step (Add cityData) st = addToSearchHistory cityData st"
| "history_step Load st = loadHistoryFromStorage st"
| "history_step Clear st = clearSearchHistory st"

definition history_run :: "'w history_op list \<Rightarrow> history_state \<Rightarrow> history_state" where
  "history_run ops st = fold history_step ops st"

text \<open>
  The history expected for identifiers \<open>ids\<close> added in this order to a history
  \<open>h\<close>: each added identifier once, the most recently added first, then what is left
  of \<open>h\<close> (\<^const>\<open>remdups\<close> keeps the last occurrence of each element).
\<close>

definition newest_first :: "string list \<Rightarrow> string list \<Rightarrow> string list" where
  "newest_first ids h = rev (remdups ids) @ filter (\<lambda>y. y \<notin> set ids) h"

text \<open>The invariant: at most five distinct entries, in the state and in the stored item.\<close>

definition history_ok :: "history_state \<Rightarrow> bool" where
  "history_ok st \<longleftrightarrow>
     distinct (searchHistory st) \<and> length (searchHistory st) \<le> 5 \<and>
     distinct (readHistoryFromStorage st) \<and> length (readHistoryFromStorage st) \<le> 5"

text \<open>Concrete cities for the examples.\<close>

definition visited :: "string \<Rightarrow> string \<Rightarrow> unit city_weather" where
  "visited n c = \<lparr>location = \<lparr>lat = 0, lon = 0, name = n, country = c, state = None\<rparr>, weather = ()\<rparr>"

definition oslo_rome_oslo :: "unit city_weather list" where
  "oslo_rome_oslo = [visited ''Oslo'' ''NO'', visited ''Rome'' ''IT'', visited ''Oslo'' ''NO'']"

definition six_cities :: "unit city_weather list" where
  "six_cities = [visited ''A'' ''NO'', visited ''B'' ''NO'', visited ''C'' ''NO'',
      visited ''D'' ''NO'', visited ''E'' ''NO'', visited ''F'' ''NO'']"

section \<open>Favorite cities (weather client)\<close>

text \<open>
  What is thrown, as a value: \<^verbatim>\<open>new Error(message)\<close>; the browser's
  \<^verbatim>\<open>GeolocationPositionError\<close> with its code and message; and the engine's own
  \<^verbatim>\<open>SyntaxError\<close> and \<^verbatim>\<open>TypeError\<close>, with the message as the engine words it.
\<close>

datatype js_error =
    Error string
  | PositionError nat string
  | SyntaxError string
  | TypeError string

text \<open>
  A stored favorite: \<^verbatim>\<open>{id, ...cityData, addedAt}\<close>. The city data are the documented
  fields \<^verbatim>\<open>lat, lon, name, country, state\<close>; the field \<^verbatim>\<open>id\<close> is called
  \<open>city_id\<close> here.
\<close>

record favorite_city = location +
  city_id :: string
  addedAt :: string

text \<open>
  The \<^verbatim>\<open>localStorage\<close> item under \<^verbatim>\<open>FAVORITES_STORAGE_KEY\<close>, and whether
  \<^verbatim>\<open>setItem\<close> throws (the quota is exceeded).
\<close>

record fav_storage =
  favorites_item :: "favorite_city list stored"
  quota_exceeded :: bool

definition getFavoriteCities :: "fav_storage \<Rightarrow> favorite_city list" where
  "getFavoriteCities st =
     (case favorites_item st of Missing \<Rightarrow> [] | Malformed \<Rightarrow> [] | Doc cities \<Rightarrow> cities)"

definition saveFavoriteCities ::
  "favorite_city list \<Rightarrow> fav_storage \<Rightarrow> (js_error + unit) \<times> fav_storage" where
  "saveFavoriteCities cities st =
     (if quota_exceeded st then (Inl (Error ''Failed to save favorite cities''), st)
      else (Inr (), st\<lparr>favorites_item := Doc cities\<rparr>))"

text \<open>
  \<^verbatim>\<open>addFavoriteCity(cityData)\<close>. The generated id (\<^verbatim>\<open>Date.now()\<close> and
  \<^verbatim>\<open>Math.random()\<close>) and the timestamp \<^verbatim>\<open>new Date().toISOString()\<close> are inputs.
\<close>

definition addFavoriteCity ::
  "string \<Rightarrow> string \<Rightarrow> location \<Rightarrow> fav_storage \<Rightarrow> (js_error + favorite_city) \<times> fav_storage" where
  "addFavoriteCity new_id now_iso cityData st =
     (let favorites = getFavoriteCities st;
          exists = list_ex (\<lambda>city. lat city = lat cityData \<and> lon city = lon cityData) favorites
      in if exists then (Inl (Error ''This city is already in your favorites''), st)
         else
           (let newCity = location.extend cityData
                            (favorite_city.fields new_id now_iso)
            in case saveFavoriteCities (favorites @ [newCity]) st of
                 (Inl e, st') \<Rightarrow> (Inl e, st')
               | (Inr _, st') \<Rightarrow> (Inr newCity, st')))"

definition removeFavoriteCity ::
  "string \<Rightarrow> fav_storage \<Rightarrow> (js_error + unit) \<times> fav_storage" where
  "removeFavoriteCity cityId st =
     (let favorites = getFavoriteCities st;
          filtered = filter (\<lambda>city. city_id city \<noteq> cityId) favorites
      in if length filtered = length favorites
         then (Inl (Error ''City not found in favorites''), st)
         else saveFavoriteCities filtered st)"

definition isCityFavorited :: "rat \<Rightarrow> rat \<Rightarrow> fav_storage \<Rightarrow> bool" where
  "isCityFavorited la lo st =
     list_ex (\<lambda>city. lat city = la \<and> lon city = lo) (getFavoriteCities st)"

definition clearAllFavorites :: "fav_storage \<Rightarrow> fav_storage" where
  "clearAllFavorites st = st\<lparr>favorites_item := Missing\<rparr>"

text \<open>
  The operations that write the favorites, and a run of them; the caller catches what an
  operation throws, so a run goes on with the storage the operation left.
\<close>

datatype fav_op = AddFavorite string string location | RemoveFavorite string | ClearFavorites

fun fav_step :: "fav_op \<Rightarrow> fav_storage \<Rightarrow> fav_storage" where
  "fav_step (AddFavorite new_id now_iso cityData) st = snd (addFavoriteCity new_id now_iso cityData st)"
| "fav_step (RemoveFavorite cityId) st = snd (removeFavoriteCity cityId st)"
| "fav_step ClearFavorites st = clearAllFavorites st"

definition fav_run :: "fav_op list \<Rightarrow> fav_storage \<Rightarrow> fav_storage" where
  "fav_run ops st = fold fav_step ops st"

text \<open>No two favorites with the same \<open>(lat, lon)\<close>.\<close>

definition coordinates :: "favorite_city \<Rightarrow> rat \<times> rat" where
  "coordinates city = (lat city, lon city)"

definition unique_coordinates :: "fav_storage \<Rightarrow> bool" where
  "unique_coordinates st = distinct (map coordinates (getFavoriteCities st))"

text \<open>Concrete favorites for the examples.\<close>

definition london :: location where
  "london = \<lparr>lat = 515 / 10, lon = - 12 / 100, name = ''London'', country = ''GB'', state = None\<rparr>"

definition paris :: location where
  "paris = \<lparr>lat = 4885 / 100, lon = 235 / 100, name = ''Paris'', country = ''FR'', state = None\<rparr>"

definition empty_storage :: fav_storage where
  "empty_storage = \<lparr>favorites_item = Missing, quota_exceeded = False\<rparr>"

definition london_favorite :: favorite_city where
  "london_favorite = \<lparr>lat = 515 / 10, lon = - 12 / 100, name = ''London'', country = ''GB'',
     state = None, city_id = ''1_a'', addedAt = ''t1''\<rparr>"

definition paris_favorite :: favorite_city where
  "paris_favorite = \<lparr>lat = 4885 / 100, lon = 235 / 100, name = ''Paris'', country = ''FR'',
     state = None, city_id = ''2_b'', addedAt = ''t2''\<rparr>"

definition two_stored :: fav_storage where
  "two_stored = \<lparr>favorites_item = Doc [london_favorite, paris_favorite], quota_exceeded = False\<rparr>"

definition two_stored_full :: fav_storage where
  "two_stored_full = \<lparr>favorites_item = Doc [london_favorite, paris_favorite], quota_exceeded = True\<rparr>"

section \<open>Weather client: geocoding search\<close>

text \<open>
  The module reads the credential once: \<open>API_KEY\<close> is the configured text, or the empty
  text when it is not configured. It is a parameter of every operation here, and so is
  the network (\<open>fetch\<close>).
\<close>

definition API_KEY_ERROR_MESSAGE :: string where
  "API_KEY_ERROR_MESSAGE = ''API key is missing''"

definition API_401_MESSAGE :: string where
  "API_401_MESSAGE = ''API key error (401)''"

definition ensureApiKey :: "string \<Rightarrow> js_error + unit" where
  "ensureApiKey API_KEY =
     (if API_KEY = [] then Inl (Error API_KEY_ERROR_MESSAGE) else Inr ())"

text \<open>
  A request of the geocoding endpoints: the URL's path and query parameters, before they
  are encoded into the URL text: \<open>q\<close>, \<open>limit\<close>, \<open>appid\<close> of \<^verbatim>\<open>/direct\<close>, and
  \<open>lat\<close>, \<open>lon\<close>, \<open>limit\<close>, \<open>appid\<close> of \<^verbatim>\<open>/reverse\<close>.
\<close>

datatype request = GeoDirect string nat string | GeoReverse rat rat nat string

text \<open>
  What \<^verbatim>\<open>response.json()\<close> gives for a successful response: a rejection with a
  \<^verbatim>\<open>SyntaxError\<close> when the body does not parse (with the engine's wording), JSON
  \<^verbatim>\<open>null\<close>, or a document.
\<close>

datatype 'a json = Unparsable string | JsonNull | Json 'a

text \<open>
  The body of an error response, as \<^verbatim>\<open>errorData\<close> sees it: a body that does not parse
  (the \<^verbatim>\<open>catch\<close> makes it \<^verbatim>\<open>{}\<close>); JSON \<^verbatim>\<open>null\<close>, on which reading
  \<^verbatim>\<open>errorData.message\<close> throws a \<^verbatim>\<open>TypeError\<close> (with the engine's wording); or
  any other document, with its \<^verbatim>\<open>message\<close> field when it has one.
\<close>

datatype error_body = NotJson | NullBody string | ErrorDocument "string option"

text \<open>
  An HTTP response: \<open>body\<close> is read for a successful response, \<open>error_body\<close> for
  any other.
\<close>

record 'a response =
  status :: nat
  statusText :: string
  body :: "'a json"
  error_body :: error_body

text \<open>\<^verbatim>\<open>response.ok\<close>: the status is in the range 200 to 299.\<close>

definition ok :: "'a response \<Rightarrow> bool" where
  "ok r \<longleftrightarrow> 200 \<le> status r \<and> status r \<le> 299"

text \<open>\<^verbatim>\<open>fetch\<close> rejects (no network) or resolves with a response.\<close>

datatype 'a fetched = Rejected js_error | Responded "'a response"

text \<open>A number in a template string, for the status code.\<close>

fun show_nat :: "nat \<Rightarrow> string" where
  "show_nat n =
     (if n < 10 then [char_of (48 + n)]
      else show_nat (n div 10) @ [char_of (48 + n mod 10)])"

declare show_nat.simps [simp del]

text \<open>
  \<^verbatim>\<open>requestJson(url, label)\<close>. A body that does not parse rejects a successful
  response with a syntax error. For another response the status 401 is tested before the
  error document is read; \<^verbatim>\<open>errorData.message || response.statusText\<close> takes the
  status text when the message is absent or empty.
\<close>

definition requestJson ::
  "(request \<Rightarrow> 'a fetched) \<Rightarrow> request \<Rightarrow> string \<Rightarrow> js_error + 'a json" where
  "requestJson fetch url label =
     (case fetch url of
        Rejected e \<Rightarrow> Inl e
      | Responded r \<Rightarrow>
          if ok r then
            (case body r of
               Unparsable wording \<Rightarrow> Inl (SyntaxError wording)
             | doc \<Rightarrow> Inr doc)
          else if status r = 401 then Inl (Error API_401_MESSAGE)
          else
            (case error_body r of
               NullBody wording \<Rightarrow> Inl (TypeError wording)
             | NotJson \<Rightarrow>
                 Inl (Error (label @ '' error: '' @ show_nat (status r) @ '' - '' @ statusText r))
             | ErrorDocument m \<Rightarrow>
                 Inl (Error (label @ '' error: '' @ show_nat (status r) @ '' - '' @
                        (case m of
                           None \<Rightarrow> statusText r
                         | Some t \<Rightarrow> if t = [] then statusText r else t)))))"

text \<open>
  \<^verbatim>\<open>String.prototype.trim\<close>. A text is a sequence of UTF-16 code units below 256, one
  \<^typ>\<open>char\<close> each, so its length is the length the page tests. The white space and line
  terminators in that range are tab, line feed, vertical tab, form feed, carriage return,
  space and the no-break space U+00A0.
\<close>

definition is_space :: "char \<Rightarrow> bool" where
  "is_space c \<longleftrightarrow>
     c \<in> set [CHR 0x09, CHR 0x0A, CHR 0x0B, CHR 0x0C, CHR 0x0D, CHR '' '', CHR 0xA0]"

definition trim :: "string \<Rightarrow> string" where
  "trim s = rev (dropWhile is_space (rev (dropWhile is_space s)))"

text \<open>A suggestion: the location fields and the display name.\<close>

record suggestion = location +
  displayName :: string

definition to_suggestion :: "location \<Rightarrow> suggestion" where
  "to_suggestion loc =
     location.extend loc
       (suggestion.fields
          (name loc @
           (case state loc of
              None \<Rightarrow> []
            | Some s \<Rightarrow> if s = [] then [] else '', '' @ s) @
           '', '' @ country loc))"

text \<open>
  \<^verbatim>\<open>searchCities(query, limit)\<close>. \<^verbatim>\<open>ensureApiKey()\<close> is its first statement, outside
  the \<^verbatim>\<open>try\<close>; the \<^verbatim>\<open>try\<close> covers the request and the mapping only.
\<close>

definition searchCities ::
  "(request \<Rightarrow> location list fetched) \<Rightarrow> string \<Rightarrow> string \<Rightarrow> nat \<Rightarrow> js_error + suggestion list" where
  "searchCities fetch API_KEY query limit =
     (case ensureApiKey API_KEY of
        Inl e \<Rightarrow> Inl e
      | Inr _ \<Rightarrow>
          if query = [] \<or> length (trim query) < 2 then Inr []
          else
            (case requestJson fetch (GeoDirect (trim query) limit API_KEY) ''Geocoding API'' of
               Inl error \<Rightarrow> Inr []
             | Inr doc \<Rightarrow>
                 Inr (map to_suggestion (case doc of Json locations \<Rightarrow> locations | _ \<Rightarrow> []))))"

text \<open>
  \<^verbatim>\<open>getCoordinatesFromCity(cityName)\<close>, the sibling on the same endpoint: nothing is
  caught.
\<close>

definition getCoordinatesFromCity ::
  "(request \<Rightarrow> location list fetched) \<Rightarrow> string \<Rightarrow> string \<Rightarrow> js_error + location" where
  "getCoordinatesFromCity fetch API_KEY cityName =
     (case ensureApiKey API_KEY of
        Inl e \<Rightarrow> Inl e
      | Inr _ \<Rightarrow>
          (case requestJson fetch (GeoDirect cityName 1 API_KEY) ''Geocoding API'' of
             Inl e \<Rightarrow> Inl e
           | Inr doc \<Rightarrow>
               (case (case doc of Json locations \<Rightarrow> locations | _ \<Rightarrow> []) of
                  [] \<Rightarrow> Inl (Error (''City \"'' @ cityName @ ''\" not found''))
                | loc # _ \<Rightarrow> Inr loc)))"

text \<open>Two networks for the examples: one that is down, one that knows London.\<close>

definition offline :: "request \<Rightarrow> location list fetched" where
  "offline url = Rejected (Error ''Failed to fetch'')"

definition knows_london :: "request \<Rightarrow> location list fetched" where
  "knows_london url =
     Responded \<lparr>status = 200, statusText = ''OK'', body = Json [london], error_body = NotJson\<rparr>"

section \<open>Search controller: debounced suggestions (Weather page)\<close>


text \<open>
  A pending timeout of the browser: its handle, the time it is due, and the query its
  callback closes over.
\<close>

record timer =
  handle :: nat
  due :: nat
  timer_query :: string

text \<open>
  The state the debounced search works on: the browser's clock, pending timeouts and next
  handle; the component's \<^verbatim>\<open>debounceTimerRef\<close>, \<^verbatim>\<open>searchSuggestions\<close> and
  \<^verbatim>\<open>isSearching\<close>; and a log of the calls of \<^verbatim>\<open>searchCities\<close> made so far
  (query and limit).
\<close>

record search_state =
  clock :: nat
  timers :: "timer list"
  next_handle :: nat
  debounceTimerRef :: "nat option"
  searchSuggestions :: "suggestion list"
  isSearching :: bool
  requested :: "(string \<times> nat) list"



text \<open>
  The callback given to \<^verbatim>\<open>setTimeout\<close>: it calls \<^verbatim>\<open>searchCities(query, 5)\<close>, shows
  the suggestions, shows none when the call throws, and ends the spinner. The response is
  taken to arrive before the next event.
\<close>

definition suggestion_fetch ::
  "(request \<Rightarrow> location list fetched) \<Rightarrow> string \<Rightarrow> string \<Rightarrow> search_state \<Rightarrow> search_state" where
  "suggestion_fetch fetch API_KEY query st =
     (let st1 = st\<lparr>requested := requested st @ [(query, 5)]\<rparr>;
          st2 = (case searchCities fetch API_KEY query 5 of
                   Inr suggestions \<Rightarrow> st1\<lparr>searchSuggestions := suggestions\<rparr>
                 | Inl error \<Rightarrow> st1\<lparr>searchSuggestions := []\<rparr>)
      in st2\<lparr>isSearching := False\<rparr>)"







section \<open>Forecast aggregation (Weather page)\<close>

subsection \<open>Dates\<close>

text \<open>
  A \<^verbatim>\<open>Date\<close> is its time value, the milliseconds since the epoch. Local time follows
  the language standard: \<^verbatim>\<open>LocalTZA(t, isUTC)\<close> is the offset of the local time zone in
  milliseconds, at the UTC time \<open>t\<close> when \<open>isUTC\<close> holds and at the local time
  \<open>t\<close> otherwise. It is the parameter \<open>tz\<close>, so a zone may change its offset.
\<close>

type_synonym zone = "int \<Rightarrow> bool \<Rightarrow> int"

definition LocalTime :: "zone \<Rightarrow> int \<Rightarrow> int" where
  "LocalTime tz t = t + tz t True"

definition UTC :: "zone \<Rightarrow> int \<Rightarrow> int" where
  "UTC tz t = t - tz t False"

text \<open>
  \<^verbatim>\<open>getHours()\<close> is the hour of the local time; \<^verbatim>\<open>setHours(0, 0, 0, 0)\<close> keeps the
  local day, sets the local time of day to midnight and goes back to UTC.
\<close>

definition getHours :: "zone \<Rightarrow> int \<Rightarrow> int" where
  "getHours tz d = (LocalTime tz d div 3600000) mod 24"

definition setHours0 :: "zone \<Rightarrow> int \<Rightarrow> int" where
  "setHours0 tz d = UTC tz (LocalTime tz d div 86400000 * 86400000)"

text \<open>
  \<^verbatim>\<open>toISOString().split('T')[0]\<close> is the UTC calendar date; it is modelled by the number
  of the UTC day, which determines it and is determined by it.
\<close>

definition isoDate :: "int \<Rightarrow> int" where
  "isoDate d = d div 86400000"

text \<open>\<^verbatim>\<open>toLocaleDateString('en-US', {weekday: 'long'})\<close>; day 0 of the epoch was a Thursday.\<close>

definition weekday :: "zone \<Rightarrow> int \<Rightarrow> string" where
  "weekday tz d =
     [''Sunday'', ''Monday'', ''Tuesday'', ''Wednesday'', ''Thursday'', ''Friday'', ''Saturday'']
       ! nat ((LocalTime tz d div 86400000 + 4) mod 7)"

text \<open>
  Zones: UTC, a fixed offset, and Europe/London in 2024, one hour ahead from 31 March
  01:00 UTC to 27 October 01:00 UTC (a local time that the change skips or repeats takes
  the offset from before the change).
\<close>

definition utc :: zone where
  "utc t isUTC = 0"

definition fixed_offset :: "int \<Rightarrow> zone" where
  "fixed_offset c t isUTC = c"

definition europe_london :: zone where
  "europe_london t isUTC =
     (if isUTC then (if 1711846800000 \<le> t \<and> t < 1729990800000 then 3600000 else 0)
      else (if 1711850400000 \<le> t \<and> t < 1729994400000 then 3600000 else 0))"

subsection \<open>Numbers\<close>

text \<open>
  A number is the rational that an IEEE 754 double denotes (finite values; no overflow
  occurs here). An arithmetic operation gives the exact result rounded to the nearest
  double, ties to the even significand: \<open>to_double\<close>, with 53 significant bits and the
  subnormal spacing below \<open>2 powi (- 1022)\<close>. For \<open>0 < x\<close>, \<open>binary_exponent x\<close> is
  the \<open>e\<close> with \<open>2 powi e \<le> x < 2 powi (e + 1)\<close>.
\<close>

definition binary_exponent :: "rat \<Rightarrow> int" where
  "binary_exponent x =
     (case quotient_of x of
        (a, b) \<Rightarrow>
          (let e = bitlen a - bitlen b in if 2 powi e \<le> x then e else e - 1))"

definition round_half_even :: "rat \<Rightarrow> int" where
  "round_half_even q =
     (let k = \<lfloor>q\<rfloor>; r = q - of_int k
      in if r < 1 / 2 then k else if 1 / 2 < r then k + 1 else if even k then k else k + 1)"

definition to_double :: "rat \<Rightarrow> rat" where
  "to_double x =
     (if x = 0 then 0
      else
        (let ulp = 2 powi (max (binary_exponent \<bar>x\<bar>) (- 1022) - 52)
         in sgn x * of_int (round_half_even (\<bar>x\<bar> / ulp)) * ulp))"

text \<open>\<^verbatim>\<open>a * b\<close>, \<^verbatim>\<open>a + b\<close> and \<^verbatim>\<open>a / b\<close> on numbers.\<close>

definition js_times :: "rat \<Rightarrow> rat \<Rightarrow> rat" where
  "js_times a b = to_double (a * b)"

definition js_plus :: "rat \<Rightarrow> rat \<Rightarrow> rat" where
  "js_plus a b = to_double (a + b)"

definition js_divide :: "rat \<Rightarrow> rat \<Rightarrow> rat" where
  "js_divide a b = to_double (a / b)"

text \<open>
  \<^verbatim>\<open>Math.round\<close> gives the nearest integer, halves upwards; it is exact on the value
  of its argument.
\<close>

definition js_round :: "rat \<Rightarrow> int" where
  "js_round x = \<lfloor>x + 1 / 2\<rfloor>"

text \<open>
  \<^verbatim>\<open>a || b\<close> on optional numbers: \<^verbatim>\<open>undefined\<close> and \<^verbatim>\<open>0\<close> are falsy, so \<open>b\<close> is
  taken for both.
\<close>

definition js_or :: "rat option \<Rightarrow> rat option \<Rightarrow> rat option" where
  "js_or a b = (case a of None \<Rightarrow> b | Some x \<Rightarrow> if x = 0 then b else Some x)"

subsection \<open>The weather record\<close>

text \<open>
  A forecast entry, by the paths the page reads: \<^verbatim>\<open>dt\<close> (seconds), \<^verbatim>\<open>main?.temp\<close>
  (\<open>main_temp\<close>), \<^verbatim>\<open>temp\<close>, \<^verbatim>\<open>pop\<close> and \<^verbatim>\<open>weather?.[0]\<close> (\<open>weather0\<close>);
  \<open>None\<close> is \<^verbatim>\<open>undefined\<close>. \<open>'w\<close> is the type of a weather condition object.
\<close>

record 'w forecast =
  dt :: int
  main_temp :: "rat option"
  temp :: "rat option"
  pop :: "rat option"
  weather0 :: "'w option"

text \<open>
  The current conditions, of which the page's rain chance reads \<^verbatim>\<open>rain\<close> (an object
  or \<^verbatim>\<open>null\<close>), and the weather record with its raw forecast list \<^verbatim>\<open>daily\<close>
  (\<open>None\<close>: absent or not an array).
\<close>

record 'r current_conditions =
  rain :: "'r option"

record ('r, 'w) weather_record =
  current :: "'r current_conditions option"
  daily :: "'w forecast list option"

subsection \<open>Five-day forecast\<close>

text \<open>
  A day bucket of \<^verbatim>\<open>dailyData\<close>. Its fields \<^verbatim>\<open>pop\<close> and \<^verbatim>\<open>weather\<close> are called
  \<open>pops\<close> and \<open>icon\<close> here; \<^verbatim>\<open>Infinity\<close> is \<open>\<infinity>\<close>.
\<close>

record 'w day_bucket =
  date :: int
  temps :: "rat list"
  pops :: "rat list"
  icon :: "'w option"
  noonTimeDiff :: enat

text \<open>The bucket made for a day key that \<^verbatim>\<open>dailyData\<close> does not have yet.\<close>

definition new_bucket :: "int \<Rightarrow> 'w day_bucket" where
  "new_bucket forecastDate =
     \<lparr>date = forecastDate, temps = [], pops = [], icon = None, noonTimeDiff = \<infinity>\<rparr>"

text \<open>What the callback of \<^verbatim>\<open>forEach\<close> does to the bucket of the entry's day.\<close>

definition absorb :: "zone \<Rightarrow> 'w forecast \<Rightarrow> 'w day_bucket \<Rightarrow> 'w day_bucket" where
  "absorb tz forecast day =
     (let forecastHour = getHours tz (dt forecast * 1000);
          timeDiffFromNoon = nat \<bar>forecastHour - 12\<bar>;
          day1 = (if enat timeDiffFromNoon < noonTimeDiff day
                  then day\<lparr>noonTimeDiff := enat timeDiffFromNoon, icon := weather0 forecast\<rparr>
                  else day);
          day2 = (case js_or (main_temp forecast) (temp forecast) of
                    None \<Rightarrow> day1
                  | Some t \<Rightarrow> day1\<lparr>temps := temps day1 @ [t]\<rparr>)
      in case pop forecast of
           None \<Rightarrow> day2
         | Some p \<Rightarrow> day2\<lparr>pops := pops day2 @ [js_times p 100]\<rparr>)"

text \<open>
  The callback of \<^verbatim>\<open>forEach\<close> on \<^verbatim>\<open>dailyData\<close>, an object whose keys keep their
  insertion order: an association list, a new key going to the end.
\<close>

definition dayKey :: "zone \<Rightarrow> 'w forecast \<Rightarrow> int" where
  "dayKey tz forecast = isoDate (setHours0 tz (dt forecast * 1000))"

definition addForecast ::
  "zone \<Rightarrow> 'w forecast \<Rightarrow> (int \<times> 'w day_bucket) list \<Rightarrow> (int \<times> 'w day_bucket) list" where
  "addForecast tz forecast dailyData =
     (let forecastDate = setHours0 tz (dt forecast * 1000);
          day = (case map_of dailyData (dayKey tz forecast) of
                   None \<Rightarrow> new_bucket forecastDate
                 | Some day \<Rightarrow> day)
      in AList.update (dayKey tz forecast) (absorb tz forecast day) dailyData)"

text \<open>An entry of the result; its fields \<^verbatim>\<open>date\<close>, \<^verbatim>\<open>pop\<close> and \<^verbatim>\<open>weather\<close> are
  called \<open>day_date\<close>, \<open>day_pop\<close> and \<open>day_weather\<close> here.\<close>

record 'w day_forecast =
  index :: nat
  dayName :: string
  day_date :: int
  minTemp :: int
  maxTemp :: int
  day_pop :: int
  day_weather :: "'w option"

definition day_entry :: "zone \<Rightarrow> nat \<times> 'w day_bucket \<Rightarrow> 'w day_forecast" where
  "day_entry tz p =
     (case p of (i, day) \<Rightarrow>
        \<lparr>index = i,
         dayName = weekday tz (date day),
         day_date = date day,
         minTemp = (if length (temps day) > 0 then js_round (Min (set (temps day))) else 0),
         maxTemp = (if length (temps day) > 0 then js_round (Max (set (temps day))) else 0),
         day_pop = (if length (pops day) > 0
                    then js_round (js_divide (foldl js_plus 0 (pops day))
                                     (of_nat (length (pops day))))
                    else 0),
         day_weather = icon day\<rparr>)"

text \<open>
  \<^verbatim>\<open>fiveDayForecast\<close>, for the page's \<^verbatim>\<open>weatherData\<close> (\<open>None\<close> before the first
  load) and the time value \<open>now\<close> of \<^verbatim>\<open>new Date()\<close>.
\<close>

definition fiveDayForecast ::
  "zone \<Rightarrow> int \<Rightarrow> ('r, 'w) weather_record city_weather option \<Rightarrow> 'w day_forecast list" where
  "fiveDayForecast tz now weatherData =
     (case weatherData of
        None \<Rightarrow> []
      | Some wd \<Rightarrow>
          (case daily (weather wd) of
             None \<Rightarrow> []
           | Some forecastList \<Rightarrow>
               (let today = setHours0 tz now;
                    dailyData = fold (addForecast tz) forecastList []
                in map (day_entry tz)
                     (List.enumerate 0
                        (take 5
                           (filter (\<lambda>day. date day \<ge> today)
                              (sort_key date (map snd dailyData))))))))"

subsection \<open>Rain chance\<close>

text \<open>The reducer of \<^verbatim>\<open>rainChance\<close>: the closest entry so far, replaced when strictly closer.\<close>

definition closer :: "int \<Rightarrow> 'w forecast \<Rightarrow> 'w forecast option \<Rightarrow> 'w forecast option" where
  "closer now forecast closest =
     (case closest of
        None \<Rightarrow> Some forecast
      | Some c \<Rightarrow>
          (let closestDiff = \<bar>dt c - now\<bar>;
               forecastDiff = \<bar>dt forecast - now\<bar>
           in if forecastDiff < closestDiff then Some forecast else Some c))"

text \<open>\<^verbatim>\<open>rainChance\<close>, for \<open>now = Math.floor(Date.now() / 1000)\<close>.\<close>

definition rainChance ::
  "int \<Rightarrow> ('r, 'w) weather_record city_weather option \<Rightarrow> int" where
  "rainChance now weatherData =
     (case weatherData of
        None \<Rightarrow> 0
      | Some wd \<Rightarrow>
          (case current (weather wd) of
             None \<Rightarrow> 0
           | Some cur \<Rightarrow>
               (case (case daily (weather wd) of
                        None \<Rightarrow> None
                      | Some forecastList \<Rightarrow>
                          (case fold (closer now) forecastList None of
                             None \<Rightarrow> None
                           | Some currentForecast \<Rightarrow>
                               (case pop currentForecast of
                                  None \<Rightarrow> None
                                | Some p \<Rightarrow> Some (js_round (js_times p 100))))) of
                  Some chance \<Rightarrow> chance
                | None \<Rightarrow> if rain cur \<noteq> None then 10 else 0)))"

subsection \<open>The first closest entry\<close>

text \<open>
  Index \<open>i\<close> is the first entry of \<open>xs\<close> at the least distance \<open>far\<close>: no entry
  is closer and every earlier one is farther.
\<close>

definition first_closest :: "('a \<Rightarrow> 'b::linorder) \<Rightarrow> 'a list \<Rightarrow> nat \<Rightarrow> bool" where
  "first_closest far xs i \<longleftrightarrow>
     i < length xs \<and>
     (\<forall>j < length xs. far (xs ! i) \<le> far (xs ! j)) \<and>
     (\<forall>j < i. far (xs ! i) < far (xs ! j))"

text \<open>The distances of the two selections: hours from local noon, seconds from now.\<close>

definition noon_distance :: "zone \<Rightarrow> 'w forecast \<Rightarrow> nat" where
  "noon_distance tz forecast = nat \<bar>getHours tz (dt forecast * 1000) - 12\<bar>"

definition now_distance :: "int \<Rightarrow> 'w forecast \<Rightarrow> int" where
  "now_distance now forecast = \<bar>dt forecast - now\<bar>"

text \<open>
  The entries of a list whose local day starts at \<open>d\<close>, and the entries that share
  the day key of the date \<open>d\<close>, which are the entries of one bucket.
\<close>

definition entries_of_day :: "zone \<Rightarrow> int \<Rightarrow> 'w forecast list \<Rightarrow> 'w forecast list" where
  "entries_of_day tz d forecastList =
     filter (\<lambda>forecast. setHours0 tz (dt forecast * 1000) = d) forecastList"

definition entries_of_bucket :: "zone \<Rightarrow> int \<Rightarrow> 'w forecast list \<Rightarrow> 'w forecast list" where
  "entries_of_bucket tz d forecastList =
     filter (\<lambda>forecast. dayKey tz forecast = isoDate d) forecastList"

subsection \<open>Notions for the proofs\<close>

text \<open>
  The invariant of \<^verbatim>\<open>dailyData\<close>: its keys are distinct and each bucket sits under the
  key of its own date.
\<close>

definition keyed :: "(int \<times> 'w day_bucket) list \<Rightarrow> bool" where
  "keyed dd \<longleftrightarrow> distinct (map fst dd) \<and> (\<forall>(k, b) \<in> set dd. k = isoDate (date b))"

text \<open>The buckets that reach the result, in their order.\<close>

definition shown_days :: "zone \<Rightarrow> int \<Rightarrow> 'w forecast list \<Rightarrow> 'w day_bucket list" where
  "shown_days tz now forecastList =
     take 5 (filter (\<lambda>day. date day \<ge> setHours0 tz now)
       (sort_key date (map snd (fold (addForecast tz) forecastList []))))"

subsection \<open>Example records\<close>

text \<open>
  An entry of 2 January 1970 (UTC) at a given hour, with its temperature, pop and icon. A
  decimal literal of the vendor's JSON is read as the nearest double.
\<close>

definition at_hour :: "int \<Rightarrow> rat \<Rightarrow> rat option \<Rightarrow> string \<Rightarrow> string forecast" where
  "at_hour h t p w =
     \<lparr>dt = 86400 + h * 3600, main_temp = Some t, temp = None, pop = p, weather0 = Some w\<rparr>"

definition record_of :: "string forecast list \<Rightarrow> (unit, string) weather_record city_weather" where
  "record_of forecastList =
     \<lparr>location = london,
      weather = \<lparr>current = Some \<lparr>rain = None\<rparr>, daily = Some forecastList\<rparr>\<rparr>"

definition mild_day :: "string forecast list" where
  "mild_day = [at_hour 9 10 (Some (to_double (42 / 100))) ''02d'', at_hour 12 15 None ''01d'',
               at_hour 15 12 None ''03d'']"

definition freezing_day :: "string forecast list" where
  "freezing_day = [at_hour 9 0 None ''13d'', at_hour 12 5 None ''01d'']"

definition mild_forecast :: "string day_forecast" where
  "mild_forecast =
     \<lparr>index = 0, dayName = ''Friday'', day_date = 86400000, minTemp = 10, maxTemp = 15,
      day_pop = 42, day_weather = Some ''01d''\<rparr>"

text \<open>
  Noon entries of eight days, out of order: the days 3, 0, 1, 2, -1, 6, 5, 4 counted from
  1 January 1970.
\<close>

definition eight_days :: "string forecast list" where
  "eight_days = map (\<lambda>k. at_hour (24 * k + 12) 10 None ''01d'') [2, -1, 0, 1, -2, 5, 4, 3]"

text \<open>Single entries with the pops 0.285 and 0.426.\<close>

definition humid_day :: "string forecast list" where
  "humid_day = [at_hour 9 10 (Some (to_double (285 / 1000))) ''10d'']"

definition damp_day :: "string forecast list" where
  "damp_day = [at_hour 9 10 (Some (to_double (426 / 1000))) ''10d'']"

text \<open>
  The vendor's three-hour entries around the change of offset in London, from Sunday
  31 March 2024 at 15:00 UTC (16:00 local) to Monday 1 April 2024 at 12:00 UTC (13:00
  local): three of Sunday and five of Monday; and the clock on that Sunday at 14:00 UTC.
\<close>

definition dst_entry :: "int \<Rightarrow> string \<Rightarrow> string forecast" where
  "dst_entry k w =
     \<lparr>dt = 1711897200 + 10800 * k, main_temp = Some 12, temp = None, pop = None,
      weather0 = Some w\<rparr>"

definition dst_weekend :: "string forecast list" where
  "dst_weekend =
     [dst_entry 0 ''01d'', dst_entry 1 ''01n'', dst_entry 2 ''01n'', dst_entry 3 ''10n'',
      dst_entry 4 ''10n'', dst_entry 5 ''10d'', dst_entry 6 ''10d'', dst_entry 7 ''10d'']"

definition dst_sunday_afternoon :: int where
  "dst_sunday_afternoon = 1711893600000"

section \<open>Current location (Weather page)\<close>

text \<open>The options of one \<^verbatim>\<open>getCurrentPosition\<close> request, and the two the page tries.\<close>

record position_options =
  enableHighAccuracy :: bool
  timeout :: nat
  maximumAge :: nat

definition geolocationAttempts :: "position_options list" where
  "geolocationAttempts =
     [\<lparr>enableHighAccuracy = False, timeout = 10000, maximumAge = 300000\<rparr>,
      \<lparr>enableHighAccuracy = True, timeout = 20000, maximumAge = 0\<rparr>]"

text \<open>A position, by the fields read: \<^verbatim>\<open>position.coords.latitude\<close> and \<^verbatim>\<open>longitude\<close>.\<close>

record coordinates_read =
  latitude :: rat
  longitude :: rat

record position =
  coords :: coordinates_read

text \<open>
  \<^verbatim>\<open>requestPosition(options)\<close> on a device \<open>geo\<close>: the promise rejects with an error
  (\<open>Inl\<close>) or resolves (\<open>Inr\<close>), with a position or, for the test
  \<^verbatim>\<open>if (position)\<close>, with a falsy value (\<open>None\<close>).
\<close>

type_synonym device = "position_options \<Rightarrow> js_error + position option"

text \<open>
  The \<^verbatim>\<open>for\<close> loop over the attempts, on the variables \<^verbatim>\<open>position\<close> and
  \<^verbatim>\<open>lastError\<close>; the third component logs the options requested, in order.
\<close>

fun attempt_loop ::
  "device \<Rightarrow> position_options list \<Rightarrow> position option \<times> js_error option \<times> position_options list \<Rightarrow>
   position option \<times> js_error option \<times> position_options list" where
  "attempt_loop geo [] vars = vars"
| "attempt_loop geo (options # rest) (position, lastError, requests) =
     (case geo options of
        Inr (Some p) \<Rightarrow> (Some p, lastError, requests @ [options])
      | Inr None \<Rightarrow> attempt_loop geo rest (None, lastError, requests @ [options])
      | Inl attemptError \<Rightarrow>
          attempt_loop geo rest (position, Some attemptError, requests @ [options]))"

text \<open>The loop and the \<^verbatim>\<open>throw\<close> after it: the position, or what is thrown.\<close>

definition locate :: "device \<Rightarrow> (js_error + position) \<times> position_options list" where
  "locate geo =
     (case attempt_loop geo geolocationAttempts (None, None, []) of
        (Some p, lastError, requests) \<Rightarrow> (Inr p, requests)
      | (None, lastError, requests) \<Rightarrow>
          (Inl (case lastError of
                  Some e \<Rightarrow> e
                | None \<Rightarrow> Error ''Unable to determine location after multiple attempts''),
           requests))"

text \<open>
  \<^verbatim>\<open>locationInfo\<close>; its fields \<^verbatim>\<open>name\<close>, \<^verbatim>\<open>country\<close> and \<^verbatim>\<open>state\<close> are called
  \<open>info_name\<close>, \<open>info_country\<close> and \<open>info_state\<close> here.
\<close>

record location_info =
  info_name :: string
  info_country :: string
  info_state :: string

text \<open>
  The reverse geocoding of the handler: best effort, every failure leaves the default
  label.
\<close>

definition reverse_geocode ::
  "(request \<Rightarrow> location list fetched) \<Rightarrow> string \<Rightarrow> rat \<Rightarrow> rat \<Rightarrow> location_info" where
  "reverse_geocode fetch API_KEY la lo =
     (let locationInfo = \<lparr>info_name = ''Current Location'', info_country = [], info_state = []\<rparr>
      in if API_KEY = [] then locationInfo
         else
           (case fetch (GeoReverse la lo 1 API_KEY) of
              Rejected geoError \<Rightarrow> locationInfo
            | Responded geoResponse \<Rightarrow>
                if ok geoResponse then
                  (case body geoResponse of
                     Json (loc # _) \<Rightarrow>
                       \<lparr>info_name = name loc, info_country = country loc,
                        info_state = (case state loc of None \<Rightarrow> [] | Some s \<Rightarrow> s)\<rparr>
                   | _ \<Rightarrow> locationInfo)
                else locationInfo))"

text \<open>
  \<^verbatim>\<open>getWeatherByCoordinates(lat, lon, locationInfo)\<close> of the weather client, over its
  \<^verbatim>\<open>getWeatherData\<close> (the two weather requests and their merge), a parameter.
\<close>

definition getWeatherByCoordinates ::
  "(rat \<Rightarrow> rat \<Rightarrow> js_error + 'w) \<Rightarrow> rat \<Rightarrow> rat \<Rightarrow> location_info \<Rightarrow> js_error + 'w city_weather" where
  "getWeatherByCoordinates getWeatherData la lo locationInfo =
     (case getWeatherData la lo of
        Inl e \<Rightarrow> Inl e
      | Inr weatherData \<Rightarrow>
          Inr \<lparr>location =
                 \<lparr>lat = la, lon = lo, name = info_name locationInfo,
                  country = info_country locationInfo, state = Some (info_state locationInfo)\<rparr>,
               weather = weatherData\<rparr>)"

text \<open>
  The state of the page that the handler touches, with the stored snapshot
  (\<^verbatim>\<open>CURRENT_WEATHER_KEY\<close>), the history, and two logs: the position requests and the
  coordinates of the weather requests made.
\<close>

record 'w page_state =
  cityName :: string
  loading :: bool
  gettingLocation :: bool
  showHistory :: bool
  error :: "string option"
  weatherData :: "'w city_weather option"
  saved_weather :: "'w city_weather stored"
  history :: history_state
  position_requests :: "position_options list"
  weather_requests :: "(rat \<times> rat) list"

text \<open>\<^verbatim>\<open>applyWeatherData(data)\<close> with its defaults, persisting and saving to the history.\<close>

definition applyWeatherData :: "'w city_weather \<Rightarrow> 'w page_state \<Rightarrow> 'w page_state" where
  "applyWeatherData data st =
     st\<lparr>weatherData := Some data,
        cityName := name (location data),
        saved_weather := Doc data,
        history := addToSearchHistory data (history st)\<rparr>"

text \<open>The message the \<^verbatim>\<open>catch\<close> of the handler shows for what was thrown.\<close>

definition location_error_message :: "js_error \<Rightarrow> string" where
  "location_error_message err =
     (case err of
        PositionError c m \<Rightarrow>
          if c = 1 then ''Location access denied. Please allow location access in your browser settings and reload the page.''
          else if c = 2 then ''Unable to determine your location. Try searching for your city manually.''
          else if c = 3 then ''Location request timed out. Your device may be having trouble determining location. Try searching for your city manually.''
          else if m = [] then ''Failed to get current location. Please search for your city instead.''
          else m
      | Error m \<Rightarrow>
          if m = [] then ''Failed to get current location. Please search for your city instead.''
          else m
      | SyntaxError m \<Rightarrow>
          if m = [] then ''Failed to get current location. Please search for your city instead.''
          else m
      | TypeError m \<Rightarrow>
          if m = [] then ''Failed to get current location. Please search for your city instead.''
          else m)"

text \<open>
  \<^verbatim>\<open>handleCurrentLocation\<close>. \<open>geolocation\<close> is \<^verbatim>\<open>navigator.geolocation\<close>, absent in a
  browser without it.
\<close>

definition handleCurrentLocation ::
  "device option \<Rightarrow> (request \<Rightarrow> location list fetched) \<Rightarrow> string \<Rightarrow>
   (rat \<Rightarrow> rat \<Rightarrow> js_error + 'w) \<Rightarrow> 'w page_state \<Rightarrow> 'w page_state" where
  "handleCurrentLocation geolocation fetch API_KEY getWeatherData st =
     (case geolocation of
        None \<Rightarrow> st\<lparr>error := Some ''Geolocation is not supported by your browser''\<rparr>
      | Some geo \<Rightarrow>
          (let st1 = st\<lparr>gettingLocation := True, showHistory := False, error := None,
                       loading := True\<rparr>;
               (located, requests) = locate geo;
               st2 = st1\<lparr>position_requests := position_requests st1 @ requests\<rparr>;
               st3 =
                 (case located of
                    Inl err \<Rightarrow> st2\<lparr>error := Some (location_error_message err)\<rparr>
                  | Inr p \<Rightarrow>
                      (let la = latitude (coords p);
                           lo = longitude (coords p);
                           locationInfo = reverse_geocode fetch API_KEY la lo;
                           st' = st2\<lparr>weather_requests := weather_requests st2 @ [(la, lo)]\<rparr>
                       in case getWeatherByCoordinates getWeatherData la lo locationInfo of
                            Inl err \<Rightarrow> st'\<lparr>error := Some (location_error_message err)\<rparr>
                          | Inr data \<Rightarrow> applyWeatherData data st'))
           in st3\<lparr>gettingLocation := False, loading := False\<rparr>))"

text \<open>Examples: a device that times out on the first request and then finds London.\<close>

definition low_accuracy :: position_options where
  "low_accuracy = \<lparr>enableHighAccuracy = False, timeout = 10000, maximumAge = 300000\<rparr>"

definition high_accuracy :: position_options where
  "high_accuracy = \<lparr>enableHighAccuracy = True, timeout = 20000, maximumAge = 0\<rparr>"

definition in_london :: position where
  "in_london = \<lparr>coords = \<lparr>latitude = 515 / 10, longitude = - 12 / 100\<rparr>\<rparr>"

definition slow_device :: device where
  "slow_device options =
     (if enableHighAccuracy options then Inr (Some in_london)
      else Inl (PositionError 3 ''Timeout expired''))"

definition dead_device :: device where
  "dead_device options =
     (if enableHighAccuracy options then Inl (PositionError 2 ''Position unavailable'')
      else Inl (PositionError 3 ''Timeout expired''))"

definition mute_device :: device where
  "mute_device options = Inr None"

text \<open>A weather service that reports the coordinates it was asked for.\<close>

definition measured_at :: "rat \<Rightarrow> rat \<Rightarrow> js_error + rat \<times> rat" where
  "measured_at la lo = Inr (la, lo)"

definition blank_page :: "(rat \<times> rat) page_state" where
  "blank_page =
     \<lparr>cityName = [], loading = False, gettingLocation = False, showHistory = True,
      error = None, weatherData = None, saved_weather = Missing, history = initial_history,
      position_requests = [], weather_requests = []\<rparr>"

section \<open>Search history: proofs\<close>

lemma remdups_snoc: "remdups (xs @ [x]) = filter (\<lambda>y. y \<noteq> x) (remdups xs) @ [x]"
  by (induction xs) auto

lemma take_filter_take:
  "distinct L \<Longrightarrow> take n (filter (\<lambda>y. y \<noteq> x) (take (Suc n) L)) = take n (filter (\<lambda>y. y \<noteq> x) L)"
proof (induction L arbitrary: n)
  case Nil
  then show ?case by simp
next
  case (Cons y L)
  show ?case
  proof (cases "y = x")
    case True
    with Cons.prems have "x \<notin> set L" by simp
    then have "filter (\<lambda>y. y \<noteq> x) L = L" "filter (\<lambda>y. y \<noteq> x) (take n L) = take n L"
      by (auto simp: filter_id_conv dest: in_set_takeD)
    with True show ?thesis by simp
  next
    case False
    with Cons show ?thesis by (cases n) auto
  qed
qed

lemma take5_cons_filter:
  assumes "distinct L"
  shows "take 5 (x # filter (\<lambda>y. y \<noteq> x) (take 5 L)) = take 5 (x # filter (\<lambda>y. y \<noteq> x) L)"
proof -
  have "take 4 (filter (\<lambda>y. y \<noteq> x) (take (Suc 4) L)) = take 4 (filter (\<lambda>y. y \<noteq> x) L)"
    using assms by (rule take_filter_take)
  moreover have "Suc 4 = 5" by simp
  moreover have "\<And>zs. take 5 (x # zs) = x # take 4 zs" by (simp add: take_Cons')
  ultimately show ?thesis by simp
qed

lemma searchHistory_add:
  "searchHistory (addToSearchHistory cd st) =
     take 5 (cityIdentifier cd # filter (\<lambda>item. item \<noteq> cityIdentifier cd) (searchHistory st))"
  by (simp add: addToSearchHistory_def MAX_HISTORY_ITEMS_def Let_def)

lemma history_item_add:
  "history_item (addToSearchHistory cd st) = Doc (searchHistory (addToSearchHistory cd st))"
  by (simp add: addToSearchHistory_def Let_def)

lemma distinct_newest_first: "distinct h \<Longrightarrow> distinct (newest_first ids h)"
  by (auto simp: newest_first_def)

lemma newest_first_snoc:
  "newest_first (ids @ [x]) h = x # filter (\<lambda>y. y \<noteq> x) (newest_first ids h)"
  by (simp add: newest_first_def remdups_snoc rev_filter conj_commute)

lemma fold_add_history:
  assumes "distinct (searchHistory st)"
  shows "searchHistory (fold addToSearchHistory cds st) =
           (if cds = [] then searchHistory st
            else take 5 (newest_first (map cityIdentifier cds) (searchHistory st)))"
proof (induction cds rule: rev_induct)
  case Nil
  show ?case by simp
next
  case (snoc cd cds)
  let ?L = "newest_first (map cityIdentifier cds) (searchHistory st)"
  let ?x = "cityIdentifier cd"
  have d: "distinct ?L" using assms by (rule distinct_newest_first)
  have "searchHistory (fold addToSearchHistory (cds @ [cd]) st) =
          take 5 (?x # filter (\<lambda>y. y \<noteq> ?x) (searchHistory (fold addToSearchHistory cds st)))"
    by (simp add: searchHistory_add)
  also have "\<dots> = take 5 (?x # filter (\<lambda>y. y \<noteq> ?x) ?L)"
  proof (cases "cds = []")
    case True
    then show ?thesis by (simp add: newest_first_def)
  next
    case False
    with snoc.IH take5_cons_filter [OF d] show ?thesis by simp
  qed
  also have "\<dots> = take 5 (newest_first (map cityIdentifier (cds @ [cd])) (searchHistory st))"
    by (simp add: newest_first_snoc)
  finally show ?case by simp
qed

lemma distinct_add: "distinct (searchHistory st) \<Longrightarrow> distinct (searchHistory (addToSearchHistory cd st))"
  by (auto simp: searchHistory_add dest: in_set_takeD)

lemma history_ok_step: "history_ok st \<Longrightarrow> history_ok (history_step opn st)"
proof (cases opn)
  case (Add cd)
  assume "history_ok st"
  then have "distinct (searchHistory (addToSearchHistory cd st))"
    by (simp add: history_ok_def distinct_add)
  moreover have "length (searchHistory (addToSearchHistory cd st)) \<le> 5"
    by (simp add: searchHistory_add)
  ultimately show ?thesis using Add
    by (simp add: history_ok_def readHistoryFromStorage_def parseJSONSafely_def history_item_add)
next
  case Load
  assume "history_ok st"
  then show ?thesis using Load
    by (simp add: history_ok_def loadHistoryFromStorage_def readHistoryFromStorage_def)
next
  case Clear
  show ?thesis using Clear
    by (simp add: history_ok_def clearSearchHistory_def readHistoryFromStorage_def parseJSONSafely_def)
qed

lemma history_ok_run: "history_ok st \<Longrightarrow> history_ok (history_run ops st)"
  unfolding history_run_def by (induction ops arbitrary: st) (simp_all add: history_ok_step)

lemma history_ok_initial: "history_ok initial_history"
  by (simp add: history_ok_def initial_history_def readHistoryFromStorage_def parseJSONSafely_def)

lemma history_item_fold:
  "cds \<noteq> [] \<Longrightarrow> history_item (fold addToSearchHistory cds st) = Doc (searchHistory (fold addToSearchHistory cds st))"
  by (induction cds rule: rev_induct) (simp_all add: history_item_add)

text \<open>
  C7. After any sequence of history operations from the initial state the history has at
  most 5 entries and no duplicate. One addition removes the earlier occurrence of the
  identifier, puts it in front and truncates to 5. A non-empty sequence of additions to a
  duplicate-free history leaves the added identifiers, most recent first, followed by the
  older entries, cut to 5, and stores the same list. Six distinct additions to the empty
  history leave the last five, newest first.
\<close>

theorem search_history_newest_five:
  "(let st = history_run ops initial_history
    in length (searchHistory st) \<le> 5 \<and> distinct (searchHistory st)) \<and>
   searchHistory (addToSearchHistory cd st0) =
     take 5 (cityIdentifier cd # filter (\<lambda>item. item \<noteq> cityIdentifier cd) (searchHistory st0)) \<and>
   (distinct (searchHistory st0) \<and> cds \<noteq> [] \<longrightarrow>
      searchHistory (fold addToSearchHistory cds st0) =
        take 5 (newest_first (map cityIdentifier cds) (searchHistory st0)) \<and>
      history_item (fold addToSearchHistory cds st0) =
        Doc (searchHistory (fold addToSearchHistory cds st0))) \<and>
   (distinct (map cityIdentifier six) \<and> length six = 6 \<longrightarrow>
      searchHistory (fold addToSearchHistory six initial_history) =
        rev (drop 1 (map cityIdentifier six)))"
proof -
  have a: "history_ok (history_run ops initial_history)"
    by (rule history_ok_run [OF history_ok_initial])
  have c: "distinct (searchHistory st0) \<and> cds \<noteq> [] \<longrightarrow>
      searchHistory (fold addToSearchHistory cds st0) =
        take 5 (newest_first (map cityIdentifier cds) (searchHistory st0)) \<and>
      history_item (fold addToSearchHistory cds st0) =
        Doc (searchHistory (fold addToSearchHistory cds st0))"
    by (simp add: fold_add_history history_item_fold)
  have d: "distinct (map cityIdentifier six) \<and> length six = 6 \<longrightarrow>
      searchHistory (fold addToSearchHistory six initial_history) =
        rev (drop 1 (map cityIdentifier six))"
  proof
    assume h: "distinct (map cityIdentifier six) \<and> length six = 6"
    then have ne: "six \<noteq> []" by auto
    have "distinct (searchHistory initial_history)" by (simp add: initial_history_def)
    then have "searchHistory (fold addToSearchHistory six initial_history) =
        take 5 (newest_first (map cityIdentifier six) (searchHistory initial_history))"
      using ne by (simp add: fold_add_history)
    also have "\<dots> = take 5 (rev (map cityIdentifier six))"
      using h by (simp add: newest_first_def initial_history_def distinct_remdups_id)
    also have "\<dots> = rev (drop 1 (map cityIdentifier six))"
      using h by (simp add: take_rev)
    finally show "searchHistory (fold addToSearchHistory six initial_history) =
        rev (drop 1 (map cityIdentifier six))" .
  qed
  from a c d show ?thesis
    by (simp add: history_ok_def Let_def searchHistory_add)
qed

text \<open>
  Oslo, Rome, Oslo leaves Oslo before Rome; six distinct cities A..F leave F, E, D, C, B.
\<close>

theorem search_history_newest_five_witness:
  "distinct (searchHistory initial_history) \<and> oslo_rome_oslo \<noteq> [] \<and>
   searchHistory (fold addToSearchHistory oslo_rome_oslo initial_history)
     = [''Oslo, NO'', ''Rome, IT''] \<and>
   distinct (map cityIdentifier six_cities) \<and> length six_cities = 6 \<and>
   searchHistory (fold addToSearchHistory six_cities initial_history)
     = [''F, NO'', ''E, NO'', ''D, NO'', ''C, NO'', ''B, NO'']"
proof -
  note t = search_history_newest_five
    [of "[]" "visited ''Oslo'' ''NO''" initial_history oslo_rome_oslo six_cities]
  have h1: "distinct (searchHistory initial_history) \<and> oslo_rome_oslo \<noteq> []"
    by (simp add: initial_history_def oslo_rome_oslo_def)
  have h2: "distinct (map cityIdentifier six_cities) \<and> length six_cities = 6"
    by (simp add: six_cities_def visited_def cityIdentifier_def)
  have e1: "take 5 (newest_first (map cityIdentifier oslo_rome_oslo) (searchHistory initial_history))
     = [''Oslo, NO'', ''Rome, IT'']"
    by (simp add: initial_history_def oslo_rome_oslo_def visited_def cityIdentifier_def newest_first_def)
  have e2: "rev (drop 1 (map cityIdentifier six_cities))
     = [''F, NO'', ''E, NO'', ''D, NO'', ''C, NO'', ''B, NO'']"
    by (simp add: six_cities_def visited_def cityIdentifier_def)
  from t h1 have r1: "searchHistory (fold addToSearchHistory oslo_rome_oslo initial_history) =
      take 5 (newest_first (map cityIdentifier oslo_rome_oslo) (searchHistory initial_history))"
    by blast
  from t h2 have r2: "searchHistory (fold addToSearchHistory six_cities initial_history) =
      rev (drop 1 (map cityIdentifier six_cities))"
    by blast
  from h1 h2 r1 [unfolded e1] r2 [unfolded e2] show ?thesis by blast
qed

section \<open>Favorite cities: proofs\<close>

lemma list_ex_coords:
  "list_ex (\<lambda>city. lat city = lat cd \<and> lon city = lon cd) favs \<longleftrightarrow>
     (lat cd, lon cd) \<in> set (map coordinates favs)"
  by (force simp: list_ex_iff coordinates_def)

lemma coordinates_extend:
  "coordinates (location.extend cd (favorite_city.fields i t)) = (lat cd, lon cd)"
  by (simp add: coordinates_def location.defs favorite_city.defs)

lemma add_duplicate:
  assumes "\<exists>c \<in> set (getFavoriteCities st). lat c = lat cd \<and> lon c = lon cd"
  shows "addFavoriteCity i t cd st = (Inl (Error ''This city is already in your favorites''), st)"
  using assms by (auto simp: addFavoriteCity_def Let_def list_ex_iff)

lemma get_after_save:
  "getFavoriteCities (snd (saveFavoriteCities cs st)) =
     (if quota_exceeded st then getFavoriteCities st else cs)"
  by (simp add: saveFavoriteCities_def getFavoriteCities_def)

lemma unique_add: "unique_coordinates st \<Longrightarrow> unique_coordinates (snd (addFavoriteCity i t cd st))"
  by (auto simp: addFavoriteCity_def Let_def unique_coordinates_def list_ex_coords
      coordinates_extend saveFavoriteCities_def getFavoriteCities_def split: prod.splits sum.splits if_splits)

lemma unique_remove: "unique_coordinates st \<Longrightarrow> unique_coordinates (snd (removeFavoriteCity cid st))"
  by (auto simp: removeFavoriteCity_def Let_def unique_coordinates_def get_after_save distinct_map_filter)

lemma unique_clear: "unique_coordinates (clearAllFavorites st)"
  by (simp add: clearAllFavorites_def unique_coordinates_def getFavoriteCities_def)

lemma unique_step: "unique_coordinates st \<Longrightarrow> unique_coordinates (fav_step opn st)"
  by (cases opn) (simp_all add: unique_add unique_remove unique_clear)

lemma unique_run: "unique_coordinates st \<Longrightarrow> unique_coordinates (fav_run ops st)"
  unfolding fav_run_def by (induction ops arbitrary: st) (simp_all add: unique_step)

text \<open>
  C6. When the stored favorites already hold an entry with the coordinates of the city
  being added, \<^const>\<open>addFavoriteCity\<close> throws the "already in your favorites" error
  and the storage is what it was. Hence no run of add, remove and clear operations that
  starts without two favorites at the same \<open>(lat, lon)\<close> ever produces two.
\<close>

theorem duplicate_favorite_rejected:
  "((\<exists>c \<in> set (getFavoriteCities st). lat c = lat cityData \<and> lon c = lon cityData) \<longrightarrow>
      addFavoriteCity new_id now_iso cityData st =
        (Inl (Error ''This city is already in your favorites''), st)) \<and>
   (unique_coordinates st0 \<longrightarrow> unique_coordinates (fav_run ops st0))"
  using add_duplicate [of st cityData new_id now_iso] unique_run [of st0 ops] by blast

lemma remove_absent:
  assumes "\<not> (\<exists>c \<in> set (getFavoriteCities st). city_id c = cid)"
  shows "removeFavoriteCity cid st = (Inl (Error ''City not found in favorites''), st)"
proof -
  have "filter (\<lambda>city. city_id city \<noteq> cid) (getFavoriteCities st) = getFavoriteCities st"
    using assms by (simp add: filter_id_conv)
  then show ?thesis by (simp add: removeFavoriteCity_def Let_def)
qed

lemma remove_present:
  assumes "\<exists>c \<in> set (getFavoriteCities st). city_id c = cid"
  shows "removeFavoriteCity cid st =
           saveFavoriteCities (filter (\<lambda>city. city_id city \<noteq> cid) (getFavoriteCities st)) st"
proof -
  from assms obtain c where "c \<in> set (getFavoriteCities st)" "\<not> city_id c \<noteq> cid" by auto
  then have "length (filter (\<lambda>city. city_id city \<noteq> cid) (getFavoriteCities st))
               < length (getFavoriteCities st)"
    by (rule length_filter_less)
  then show ?thesis by (simp add: removeFavoriteCity_def Let_def)
qed

text \<open>
  C10. When no stored favorite has the id, \<^const>\<open>removeFavoriteCity\<close> throws "City not
  found in favorites" and the storage is not rewritten. When some favorite has it and the
  storage takes the write, the stored list becomes the old one without the entries of that
  id, the others in their order; when the write fails, the save error is thrown and the
  storage is what it was.
\<close>

theorem remove_favorite_by_id:
  "(\<not> (\<exists>c \<in> set (getFavoriteCities st). city_id c = cityId) \<longrightarrow>
      removeFavoriteCity cityId st = (Inl (Error ''City not found in favorites''), st)) \<and>
   ((\<exists>c \<in> set (getFavoriteCities st). city_id c = cityId) \<and> \<not> quota_exceeded st \<longrightarrow>
      removeFavoriteCity cityId st =
        (Inr (), st\<lparr>favorites_item :=
                    Doc (filter (\<lambda>city. city_id city \<noteq> cityId) (getFavoriteCities st))\<rparr>)) \<and>
   ((\<exists>c \<in> set (getFavoriteCities st). city_id c = cityId) \<and> quota_exceeded st \<longrightarrow>
      removeFavoriteCity cityId st = (Inl (Error ''Failed to save favorite cities''), st))"
  using remove_absent [of st cityId] remove_present [of st cityId]
  by (auto simp: saveFavoriteCities_def)

text \<open>
  London is refused when London and Paris are stored; adding London, Paris, London to an
  empty storage keeps the coordinates unique.
\<close>

theorem duplicate_favorite_rejected_witness:
  "(\<exists>c \<in> set (getFavoriteCities two_stored). lat c = lat london \<and> lon c = lon london) \<and>
   addFavoriteCity ''9_z'' ''t9'' london two_stored =
     (Inl (Error ''This city is already in your favorites''), two_stored) \<and>
   unique_coordinates empty_storage \<and>
   unique_coordinates (fav_run [AddFavorite ''1_a'' ''t1'' london, AddFavorite ''2_b'' ''t2'' paris,
      AddFavorite ''3_c'' ''t3'' london] empty_storage)"
proof -
  note t = duplicate_favorite_rejected [of two_stored london "''9_z''" "''t9''" empty_storage
    "[AddFavorite ''1_a'' ''t1'' london, AddFavorite ''2_b'' ''t2'' paris,
      AddFavorite ''3_c'' ''t3'' london]"]
  have h1: "\<exists>c \<in> set (getFavoriteCities two_stored). lat c = lat london \<and> lon c = lon london"
    by (simp add: getFavoriteCities_def two_stored_def london_favorite_def london_def)
  have h2: "unique_coordinates empty_storage"
    by (simp add: unique_coordinates_def getFavoriteCities_def empty_storage_def)
  from t h1 h2 show ?thesis by blast
qed

text \<open>
  With London (id 1_a) and Paris (id 2_b) stored: id 7_x is not found, removing 1_a leaves
  Paris, and with the quota exceeded the removal fails to save.
\<close>

theorem remove_favorite_by_id_witness:
  "\<not> (\<exists>c \<in> set (getFavoriteCities two_stored). city_id c = ''7_x'') \<and>
   removeFavoriteCity ''7_x'' two_stored = (Inl (Error ''City not found in favorites''), two_stored) \<and>
   (\<exists>c \<in> set (getFavoriteCities two_stored). city_id c = ''1_a'') \<and> \<not> quota_exceeded two_stored \<and>
   removeFavoriteCity ''1_a'' two_stored =
     (Inr (), \<lparr>favorites_item = Doc [paris_favorite], quota_exceeded = False\<rparr>) \<and>
   (\<exists>c \<in> set (getFavoriteCities two_stored_full). city_id c = ''1_a'') \<and>
   quota_exceeded two_stored_full \<and>
   removeFavoriteCity ''1_a'' two_stored_full =
     (Inl (Error ''Failed to save favorite cities''), two_stored_full)"
proof -
  note t1 = remove_favorite_by_id [of two_stored "''7_x''"]
  note t2 = remove_favorite_by_id [of two_stored "''1_a''"]
  note t3 = remove_favorite_by_id [of two_stored_full "''1_a''"]
  have h1: "\<not> (\<exists>c \<in> set (getFavoriteCities two_stored). city_id c = ''7_x'')"
    by (simp add: getFavoriteCities_def two_stored_def london_favorite_def paris_favorite_def)
  have h2: "(\<exists>c \<in> set (getFavoriteCities two_stored). city_id c = ''1_a'') \<and>
            \<not> quota_exceeded two_stored"
    by (simp add: getFavoriteCities_def two_stored_def london_favorite_def)
  have h3: "(\<exists>c \<in> set (getFavoriteCities two_stored_full). city_id c = ''1_a'') \<and>
            quota_exceeded two_stored_full"
    by (simp add: getFavoriteCities_def two_stored_full_def london_favorite_def)
  have e: "two_stored\<lparr>favorites_item :=
              Doc (filter (\<lambda>city. city_id city \<noteq> ''1_a'') (getFavoriteCities two_stored))\<rparr>
           = \<lparr>favorites_item = Doc [paris_favorite], quota_exceeded = False\<rparr>"
    by (simp add: getFavoriteCities_def two_stored_def london_favorite_def paris_favorite_def)
  from t1 h1 have r1: "removeFavoriteCity ''7_x'' two_stored =
      (Inl (Error ''City not found in favorites''), two_stored)" by blast
  from t2 h2 have r2: "removeFavoriteCity ''1_a'' two_stored =
      (Inr (), two_stored\<lparr>favorites_item :=
              Doc (filter (\<lambda>city. city_id city \<noteq> ''1_a'') (getFavoriteCities two_stored))\<rparr>)"
    by blast
  from t3 h3 have r3: "removeFavoriteCity ''1_a'' two_stored_full =
      (Inl (Error ''Failed to save favorite cities''), two_stored_full)" by blast
  from h1 h2 h3 r1 r2 [unfolded e] r3 show ?thesis by blast
qed

section \<open>Weather client: proofs\<close>

lemma missing_key_throws:
  "searchCities fetch [] query limit = Inl (Error API_KEY_ERROR_MESSAGE)"
  by (simp add: searchCities_def ensureApiKey_def)

text \<open>
  C1, as stated, fails: without a credential \<^const>\<open>searchCities\<close> does not return the
  empty list, also for a query the network would answer.
\<close>

theorem searchCities_missing_key_counterexample:
  "searchCities knows_london [] ''London'' 5 = Inl (Error ''API key is missing'') \<and>
   searchCities knows_london [] ''London'' 5 \<noteq> Inr []"
  by (simp add: searchCities_def ensureApiKey_def API_KEY_ERROR_MESSAGE_def)

text \<open>
  C1, amended. For every query, limit and network, \<^const>\<open>searchCities\<close> without a
  credential fails with the credential-missing error, before it looks at the query or
  sends a request. The suggestions degrade to the empty list one level up: the debounce
  callback catches the error and shows no suggestions.
\<close>

theorem searchCities_missing_key_fails:
  "searchCities fetch [] query limit = Inl (Error API_KEY_ERROR_MESSAGE) \<and>
   searchSuggestions (suggestion_fetch fetch [] query st) = []"
  by (simp add: missing_key_throws suggestion_fetch_def Let_def)

section \<open>Search controller: proofs\<close>
















section \<open>The first closest entry: proofs\<close>

lemma first_closest_single: "first_closest far [x] 0"
  by (simp add: first_closest_def)

lemma first_closest_snoc_closer:
  assumes "first_closest far xs i" and "far y < far (xs ! i)"
  shows "first_closest far (xs @ [y]) (length xs)"
proof -
  have "\<forall>j < length xs. far y < far (xs ! j)"
    using assms by (auto simp: first_closest_def intro: less_le_trans)
  then show ?thesis
    by (auto simp: first_closest_def nth_append less_Suc_eq intro: less_imp_le)
qed

lemma first_closest_snoc_keep:
  assumes "first_closest far xs i" and "\<not> far y < far (xs ! i)"
  shows "first_closest far (xs @ [y]) i"
  using assms by (auto simp: first_closest_def nth_append less_Suc_eq not_less)

lemma first_closest_unique:
  assumes "first_closest far xs i" and "first_closest far xs j"
  shows "i = j"
proof (rule ccontr)
  assume "i \<noteq> j"
  then consider "i < j" | "j < i" by linarith
  then show False
  proof cases
    case 1
    with assms have "far (xs ! j) < far (xs ! i)" "far (xs ! i) \<le> far (xs ! j)"
      by (auto simp: first_closest_def)
    then show False by simp
  next
    case 2
    with assms have "far (xs ! i) < far (xs ! j)" "far (xs ! j) \<le> far (xs ! i)"
      by (auto simp: first_closest_def)
    then show False by simp
  qed
qed

section \<open>Numbers: proofs\<close>

lemma round_half_even_nonneg: "0 \<le> q \<Longrightarrow> 0 \<le> round_half_even q"
  by (auto simp: round_half_even_def Let_def)

lemma round_half_even_le:
  assumes "q \<le> of_int Y"
  shows "round_half_even q \<le> Y"
proof -
  have k: "\<lfloor>q\<rfloor> \<le> Y" using assms by (simp add: floor_le_iff)
  show ?thesis
  proof (cases "q = of_int \<lfloor>q\<rfloor>")
    case True
    then have "q - of_int \<lfloor>q\<rfloor> < 1 / 2" by simp
    then show ?thesis using k by (simp add: round_half_even_def Let_def)
  next
    case False
    then have "of_int \<lfloor>q\<rfloor> \<noteq> q" by (rule not_sym)
    moreover have "of_int \<lfloor>q\<rfloor> \<le> q" by (rule of_int_floor_le)
    ultimately have "of_int \<lfloor>q\<rfloor> < q" by (rule order.not_eq_order_implies_strict)
    with assms have "of_int \<lfloor>q\<rfloor> < (of_int Y :: rat)" by simp
    then have "\<lfloor>q\<rfloor> < Y" by simp
    then show ?thesis by (auto simp: round_half_even_def Let_def)
  qed
qed

lemma binary_exponent_lower:
  assumes "0 < x"
  shows "2 powi (binary_exponent x) \<le> x"
proof -
  obtain a b where q: "quotient_of x = (a, b)" by (cases "quotient_of x")
  then have b: "0 < b" by (rule quotient_of_denom_pos)
  from q have x: "x = of_int a / of_int b" by (rule quotient_of_div)
  with assms b have a: "0 < a" by (simp add: zero_less_divide_iff)
  let ?e = "bitlen a - bitlen b"
  show ?thesis
  proof (cases "2 powi ?e \<le> x")
    case True
    then show ?thesis by (simp add: binary_exponent_def q Let_def)
  next
    case False
    have la: "1 \<le> bitlen a" and lb: "1 \<le> bitlen b"
      using a b by (auto simp: bitlen_alt_def)
    from bitlen_bounds [OF a] have "(2::int) ^ nat (bitlen a - 1) \<le> a" by simp
    then have "(of_int ((2::int) ^ nat (bitlen a - 1)) :: rat) \<le> of_int a"
      by (simp only: of_int_le_iff)
    then have al: "(2::rat) powi (bitlen a - 1) \<le> of_int a"
      using la by (simp add: power_int_def)
    from bitlen_bounds [OF b] have "b < (2::int) ^ nat (bitlen b)" by simp
    then have "(of_int b :: rat) < of_int ((2::int) ^ nat (bitlen b))"
      by (simp only: of_int_less_iff)
    then have bu: "of_int b \<le> (2::rat) powi (bitlen b)"
      using lb by (simp add: power_int_def)
    have "(2::rat) powi (?e - 1) = 2 powi (bitlen a - 1) / 2 powi (bitlen b)"
      by (simp add: power_int_diff)
    also have "\<dots> \<le> of_int a / 2 powi (bitlen b)"
      using al by (simp add: divide_right_mono)
    also have "\<dots> \<le> of_int a / of_int b"
      using bu a b by (simp add: divide_left_mono)
    finally have "(2::rat) powi (?e - 1) \<le> x" by (simp add: x)
    with False show ?thesis by (simp add: binary_exponent_def q Let_def)
  qed
qed

lemma binary_exponent_below:
  assumes "0 < x" and "x < 2 powi n"
  shows "binary_exponent x < n"
proof (rule ccontr)
  assume "\<not> binary_exponent x < n"
  then have "n \<le> binary_exponent x" by simp
  then have "(2::rat) powi n \<le> 2 powi (binary_exponent x)"
    by (simp add: power_int_increasing)
  also have "\<dots> \<le> x" using assms(1) by (rule binary_exponent_lower)
  finally show False using assms(2) by simp
qed

lemma to_double_nonneg: "0 \<le> x \<Longrightarrow> 0 \<le> to_double x"
  by (auto simp: to_double_def Let_def round_half_even_nonneg sgn_if)

lemma to_double_le_100:
  assumes "0 \<le> x" and "x \<le> 100"
  shows "to_double x \<le> 100"
proof (cases "x = 0")
  case True
  then show ?thesis by (simp add: to_double_def)
next
  case False
  with assms have pos: "0 < x" by simp
  have "x < 2 powi 7" using assms(2) by simp
  with pos have e: "binary_exponent x < 7" by (rule binary_exponent_below)
  let ?k = "max (binary_exponent x) (- 1022) - 52"
  let ?n = "nat (- ?k)"
  have k: "?k \<le> - 46" using e by simp
  then have u: "(2::rat) powi ?k = 1 / 2 ^ ?n" by (simp add: power_int_def inverse_eq_divide power_one_over)
  have "x / (2 powi ?k) = x * 2 ^ ?n" by (simp add: u)
  also have "\<dots> \<le> 100 * 2 ^ ?n" using assms(2) by simp
  also have "\<dots> = of_int (100 * 2 ^ ?n)" by simp
  finally have "round_half_even (x / (2 powi ?k)) \<le> 100 * 2 ^ ?n"
    by (rule round_half_even_le)
  then have "(of_int (round_half_even (x / (2 powi ?k))) :: rat) \<le> of_int (100 * 2 ^ ?n)"
    by (simp only: of_int_le_iff)
  then have "(of_int (round_half_even (x / (2 powi ?k))) :: rat) * (2 powi ?k)
      \<le> of_int (100 * 2 ^ ?n) * (2 powi ?k)"
    by (rule mult_right_mono) simp
  also have "of_int (100 * 2 ^ ?n) * ((2::rat) powi ?k) = 100" by (simp add: u)
  finally show ?thesis using pos by (simp add: to_double_def Let_def)
qed

lemma js_round_bounds:
  "of_int (js_round x) - 1 / 2 \<le> x \<and> x < of_int (js_round x) + 1 / 2"
  unfolding js_round_def by linarith

lemma js_round_range: "0 \<le> x \<Longrightarrow> x \<le> 100 \<Longrightarrow> 0 \<le> js_round x \<and> js_round x \<le> 100"
  unfolding js_round_def by (simp add: floor_le_iff le_floor_iff)

section \<open>Rain chance: proofs\<close>

lemma closer_step:
  assumes "(acc = None \<and> seen = []) \<or>
           (\<exists>i. first_closest (now_distance now) seen i \<and> acc = Some (seen ! i))"
  shows "\<exists>i. first_closest (now_distance now) (seen @ [f]) i \<and>
              closer now f acc = Some ((seen @ [f]) ! i)"
  using assms
proof
  assume "acc = None \<and> seen = []"
  then have "first_closest (now_distance now) (seen @ [f]) 0 \<and>
             closer now f acc = Some ((seen @ [f]) ! 0)"
    by (simp add: closer_def first_closest_single)
  then show ?thesis by blast
next
  assume "\<exists>i. first_closest (now_distance now) seen i \<and> acc = Some (seen ! i)"
  then obtain i where i: "first_closest (now_distance now) seen i" "acc = Some (seen ! i)"
    by blast
  then have il: "i < length seen" by (simp add: first_closest_def)
  show ?thesis
  proof (cases "now_distance now f < now_distance now (seen ! i)")
    case True
    with i have "first_closest (now_distance now) (seen @ [f]) (length seen)"
      by (simp add: first_closest_snoc_closer)
    moreover from True i have "closer now f acc = Some ((seen @ [f]) ! length seen)"
      by (simp add: closer_def now_distance_def Let_def)
    ultimately show ?thesis by blast
  next
    case False
    with i have "first_closest (now_distance now) (seen @ [f]) i"
      by (simp add: first_closest_snoc_keep)
    moreover from False i il have "closer now f acc = Some ((seen @ [f]) ! i)"
      by (simp add: closer_def now_distance_def Let_def nth_append)
    ultimately show ?thesis by blast
  qed
qed

lemma fold_closer:
  assumes "(acc = None \<and> seen = []) \<or>
           (\<exists>i. first_closest (now_distance now) seen i \<and> acc = Some (seen ! i))"
  shows "(fold (closer now) fs acc = None \<and> seen @ fs = []) \<or>
         (\<exists>i. first_closest (now_distance now) (seen @ fs) i \<and>
              fold (closer now) fs acc = Some ((seen @ fs) ! i))"
  using assms
proof (induction fs arbitrary: seen acc)
  case Nil
  then show ?case by simp
next
  case (Cons f fs)
  have "\<exists>i. first_closest (now_distance now) (seen @ [f]) i \<and>
              closer now f acc = Some ((seen @ [f]) ! i)"
    using Cons.prems by (rule closer_step)
  then have "(closer now f acc = None \<and> seen @ [f] = []) \<or>
      (\<exists>i. first_closest (now_distance now) (seen @ [f]) i \<and>
              closer now f acc = Some ((seen @ [f]) ! i))" by blast
  from Cons.IH [OF this] show ?case by simp
qed

lemma fold_closer_None:
  "(fold (closer now) fs None = None \<and> fs = []) \<or>
   (\<exists>i. first_closest (now_distance now) fs i \<and> fold (closer now) fs None = Some (fs ! i))"
  using fold_closer [of None "[]" now fs] by simp

lemma percent_range:
  assumes "0 \<le> p" and "p \<le> 1"
  shows "0 \<le> js_round (js_times p 100) \<and> js_round (js_times p 100) \<le> 100"
proof -
  have "0 \<le> p * 100" "p * 100 \<le> 100" using assms by simp_all
  then have "0 \<le> to_double (p * 100)" "to_double (p * 100) \<le> 100"
    by (simp_all add: to_double_nonneg to_double_le_100)
  then show ?thesis unfolding js_times_def by (rule js_round_range)
qed

lemma rainChance_Some:
  assumes "current (weather wd) = Some cur"
    and "fs = (case daily (weather wd) of None \<Rightarrow> [] | Some forecastList \<Rightarrow> forecastList)"
  shows "rainChance now (Some wd) =
           (case fold (closer now) fs None of
              None \<Rightarrow> if rain cur \<noteq> None then 10 else 0
            | Some cf \<Rightarrow>
                (case pop cf of
                   None \<Rightarrow> if rain cur \<noteq> None then 10 else 0
                 | Some p \<Rightarrow> js_round (js_times p 100)))"
  using assms by (simp add: rainChance_def split: option.splits)

text \<open>
  C5. For a weather record with current conditions and its forecast list (empty when the
  record has none): with an empty list the rain chance is 10 when the current conditions
  carry a rain object and 0 otherwise; with a non-empty list it is decided by the entry
  closest to \<open>now\<close>, the first one at the least absolute difference. When that entry
  carries a pop, the rain chance is the integer nearest to the product \<open>pop * 100\<close> as
  the machine computes it (the exact product rounded to a double), a half going up;
  otherwise it is 10 or 0 as before. When every pop of the list is between 0 and 1 the
  result is between 0 and 100.
\<close>

theorem rainChance_closest_entry:
  assumes "current (weather wd) = Some cur"
    and "forecastList = (case daily (weather wd) of None \<Rightarrow> [] | Some fs \<Rightarrow> fs)"
  shows "(forecastList = [] \<longrightarrow> rainChance now (Some wd) = (if rain cur \<noteq> None then 10 else 0)) \<and>
         (forecastList \<noteq> [] \<longrightarrow>
            (\<exists>i. first_closest (now_distance now) forecastList i \<and>
                 (case pop (forecastList ! i) of
                    Some p \<Rightarrow>
                      of_int (rainChance now (Some wd)) - 1 / 2 \<le> to_double (p * 100) \<and>
                      to_double (p * 100) < of_int (rainChance now (Some wd)) + 1 / 2
                  | None \<Rightarrow>
                      rainChance now (Some wd) = (if rain cur \<noteq> None then 10 else 0)))) \<and>
         ((\<forall>f \<in> set forecastList. \<forall>p. pop f = Some p \<longrightarrow> 0 \<le> p \<and> p \<le> 1) \<longrightarrow>
            0 \<le> rainChance now (Some wd) \<and> rainChance now (Some wd) \<le> 100)"
proof -
  note rc = rainChance_Some [OF assms, of now]
  have a: "forecastList = [] \<longrightarrow> rainChance now (Some wd) = (if rain cur \<noteq> None then 10 else 0)"
    by (simp add: rc)
  have b: "forecastList \<noteq> [] \<longrightarrow>
            (\<exists>i. first_closest (now_distance now) forecastList i \<and>
                 (case pop (forecastList ! i) of
                    Some p \<Rightarrow>
                      of_int (rainChance now (Some wd)) - 1 / 2 \<le> to_double (p * 100) \<and>
                      to_double (p * 100) < of_int (rainChance now (Some wd)) + 1 / 2
                  | None \<Rightarrow>
                      rainChance now (Some wd) = (if rain cur \<noteq> None then 10 else 0)))"
  proof
    assume "forecastList \<noteq> []"
    with fold_closer_None [of now forecastList] obtain i where
      i: "first_closest (now_distance now) forecastList i"
         "fold (closer now) forecastList None = Some (forecastList ! i)" by blast
    have "case pop (forecastList ! i) of
            Some p \<Rightarrow>
              of_int (rainChance now (Some wd)) - 1 / 2 \<le> to_double (p * 100) \<and>
              to_double (p * 100) < of_int (rainChance now (Some wd)) + 1 / 2
          | None \<Rightarrow>
              rainChance now (Some wd) = (if rain cur \<noteq> None then 10 else 0)"
    proof (cases "pop (forecastList ! i)")
      case None
      then show ?thesis by (simp add: rc i(2))
    next
      case (Some p)
      then have "rainChance now (Some wd) = js_round (to_double (p * 100))"
        by (simp add: rc i(2) js_times_def)
      with js_round_bounds [of "to_double (p * 100)"] Some show ?thesis by simp
    qed
    with i(1) show "\<exists>i. first_closest (now_distance now) forecastList i \<and>
                 (case pop (forecastList ! i) of
                    Some p \<Rightarrow>
                      of_int (rainChance now (Some wd)) - 1 / 2 \<le> to_double (p * 100) \<and>
                      to_double (p * 100) < of_int (rainChance now (Some wd)) + 1 / 2
                  | None \<Rightarrow>
                      rainChance now (Some wd) = (if rain cur \<noteq> None then 10 else 0))" by blast
  qed
  have c: "(\<forall>f \<in> set forecastList. \<forall>p. pop f = Some p \<longrightarrow> 0 \<le> p \<and> p \<le> 1) \<longrightarrow>
            0 \<le> rainChance now (Some wd) \<and> rainChance now (Some wd) \<le> 100"
  proof
    assume r: "\<forall>f \<in> set forecastList. \<forall>p. pop f = Some p \<longrightarrow> 0 \<le> p \<and> p \<le> 1"
    show "0 \<le> rainChance now (Some wd) \<and> rainChance now (Some wd) \<le> 100"
    proof (cases "fold (closer now) forecastList None")
      case None
      then show ?thesis by (simp add: rc)
    next
      case (Some cf)
      with fold_closer_None [of now forecastList] obtain i where
        "first_closest (now_distance now) forecastList i" "cf = forecastList ! i" by auto
      then have "cf \<in> set forecastList" by (simp add: first_closest_def)
      with r have "\<forall>p. pop cf = Some p \<longrightarrow> 0 \<le> p \<and> p \<le> 1" by blast
      then show ?thesis using Some
        by (auto simp: rc percent_range split: option.splits)
    qed
  qed
  from a b c show ?thesis by blast
qed

lemma nearest_integer_unique:
  assumes "of_int r - 1 / 2 \<le> (v::rat)" and "v < of_int r + 1 / 2"
  shows "r = \<lfloor>v + 1 / 2\<rfloor>"
proof -
  have "of_int r \<le> v + 1 / 2" "v + 1 / 2 < of_int r + 1" using assms by simp_all
  then have "\<lfloor>v + 1 / 2\<rfloor> = r" by (rule floor_unique)
  then show ?thesis by simp
qed

text \<open>
  The closest entry has the pop 0.42 and gives 42. With the pop 0.285 the product is the
  double just below 28.5, and the rain chance is 28; with the pop 0.426 it is 43. An empty
  list without rain gives 0.
\<close>

theorem rainChance_closest_entry_witness:
  "current (weather (record_of mild_day)) = Some \<lparr>rain = None\<rparr> \<and>
   mild_day = (case daily (weather (record_of mild_day)) of None \<Rightarrow> [] | Some fs \<Rightarrow> fs) \<and>
   mild_day \<noteq> [] \<and>
   map pop mild_day = [Some (to_double (42 / 100)), None, None] \<and>
   rainChance 118000 (Some (record_of mild_day)) = 42 \<and>
   0 \<le> rainChance 118000 (Some (record_of mild_day)) \<and>
   rainChance 118000 (Some (record_of mild_day)) \<le> 100 \<and>
   map pop humid_day = [Some (to_double (285 / 1000))] \<and>
   to_double (to_double (285 / 1000) * 100) = 8022036836253695 / 281474976710656 \<and>
   rainChance 118000 (Some (record_of humid_day)) = 28 \<and>
   map pop damp_day = [Some (to_double (426 / 1000))] \<and>
   rainChance 118000 (Some (record_of damp_day)) = 43 \<and>
   rainChance 118000 (Some (record_of [])) = 0"
proof -
  have c1: "current (weather (record_of mild_day)) = Some \<lparr>rain = None\<rparr>"
    and d1: "mild_day = (case daily (weather (record_of mild_day)) of None \<Rightarrow> [] | Some fs \<Rightarrow> fs)"
    and c2: "current (weather (record_of [])) = Some \<lparr>rain = None :: unit option\<rparr>"
    and d2: "[] = (case daily (weather (record_of [])) of None \<Rightarrow> [] | Some fs \<Rightarrow> fs)"
    and c4: "current (weather (record_of damp_day)) = Some \<lparr>rain = None\<rparr>"
    and d4: "damp_day = (case daily (weather (record_of damp_day)) of None \<Rightarrow> [] | Some fs \<Rightarrow> fs)"
    and c3: "current (weather (record_of humid_day)) = Some \<lparr>rain = None\<rparr>"
    and d3: "humid_day = (case daily (weather (record_of humid_day)) of None \<Rightarrow> [] | Some fs \<Rightarrow> fs)"
    by (simp_all add: record_of_def)
  note t1 = rainChance_closest_entry [OF c1 d1, of 118000]
  note t2 = rainChance_closest_entry [OF c2 d2, of 118000]
  note t3 = rainChance_closest_entry [OF c3 d3, of 118000]
  note t4 = rainChance_closest_entry [OF c4 d4, of 118000]
  have ne: "mild_day \<noteq> []" by (simp add: mild_day_def)
  have ps: "map pop mild_day = [Some (to_double (42 / 100)), None, None]"
    by (simp add: mild_day_def at_hour_def)
  have rg: "\<forall>f \<in> set mild_day. \<forall>p. pop f = Some p \<longrightarrow> 0 \<le> p \<and> p \<le> 1"
  proof -
    have "to_double (42 / 100) = 7566047373982433 / 18014398509481984" by code_simp
    then show ?thesis by (simp add: mild_day_def at_hour_def)
  qed
  have fc: "first_closest (now_distance 118000) mild_day 0"
    by (simp add: first_closest_def mild_day_def at_hour_def now_distance_def less_Suc_eq
        numeral_3_eq_3 nth_Cons')
  from t1 ne obtain i where i: "first_closest (now_distance 118000) mild_day i"
    "case pop (mild_day ! i) of
       Some p \<Rightarrow>
         of_int (rainChance 118000 (Some (record_of mild_day))) - 1 / 2 \<le> to_double (p * 100) \<and>
         to_double (p * 100) < of_int (rainChance 118000 (Some (record_of mild_day))) + 1 / 2
     | None \<Rightarrow>
         rainChance 118000 (Some (record_of mild_day)) =
           (if rain \<lparr>rain = None :: unit option\<rparr> \<noteq> None then 10 else 0)"
    by blast
  from i(1) fc have "i = 0" by (rule first_closest_unique)
  with i(2) have
    "of_int (rainChance 118000 (Some (record_of mild_day))) - 1 / 2
       \<le> to_double (to_double (42 / 100) * 100) \<and>
     to_double (to_double (42 / 100) * 100)
       < of_int (rainChance 118000 (Some (record_of mild_day))) + 1 / 2"
    by (simp add: mild_day_def at_hour_def)
  then have "rainChance 118000 (Some (record_of mild_day)) =
      \<lfloor>to_double (to_double (42 / 100) * 100) + 1 / 2\<rfloor>"
    by (simp add: nearest_integer_unique)
  also have "\<dots> = 42" by code_simp
  finally have v: "rainChance 118000 (Some (record_of mild_day)) = 42" .
  from t1 rg have r1: "0 \<le> rainChance 118000 (Some (record_of mild_day)) \<and>
      rainChance 118000 (Some (record_of mild_day)) \<le> 100" by blast
  have ne3: "humid_day \<noteq> []" by (simp add: humid_day_def)
  have ps3: "map pop humid_day = [Some (to_double (285 / 1000))]"
    by (simp add: humid_day_def at_hour_def)
  have pr: "to_double (to_double (285 / 1000) * 100) = 8022036836253695 / 281474976710656"
    by code_simp
  from t3 ne3 obtain j where j: "first_closest (now_distance 118000) humid_day j"
    "case pop (humid_day ! j) of
       Some p \<Rightarrow>
         of_int (rainChance 118000 (Some (record_of humid_day))) - 1 / 2 \<le> to_double (p * 100) \<and>
         to_double (p * 100) < of_int (rainChance 118000 (Some (record_of humid_day))) + 1 / 2
     | None \<Rightarrow>
         rainChance 118000 (Some (record_of humid_day)) =
           (if rain \<lparr>rain = None :: unit option\<rparr> \<noteq> None then 10 else 0)"
    by blast
  from j(1) have "j = 0" by (simp add: first_closest_def humid_day_def)
  with j(2) have
    "of_int (rainChance 118000 (Some (record_of humid_day))) - 1 / 2
       \<le> to_double (to_double (285 / 1000) * 100) \<and>
     to_double (to_double (285 / 1000) * 100)
       < of_int (rainChance 118000 (Some (record_of humid_day))) + 1 / 2"
    by (simp add: humid_day_def at_hour_def)
  then have "rainChance 118000 (Some (record_of humid_day)) =
      \<lfloor>to_double (to_double (285 / 1000) * 100) + 1 / 2\<rfloor>"
    by (simp add: nearest_integer_unique)
  also have "\<dots> = 28" by code_simp
  finally have v3: "rainChance 118000 (Some (record_of humid_day)) = 28" .
  have ne4: "damp_day \<noteq> []" by (simp add: damp_day_def)
  have ps4: "map pop damp_day = [Some (to_double (426 / 1000))]"
    by (simp add: damp_day_def at_hour_def)
  from t4 ne4 obtain k where k: "first_closest (now_distance 118000) damp_day k"
    "case pop (damp_day ! k) of
       Some p \<Rightarrow>
         of_int (rainChance 118000 (Some (record_of damp_day))) - 1 / 2 \<le> to_double (p * 100) \<and>
         to_double (p * 100) < of_int (rainChance 118000 (Some (record_of damp_day))) + 1 / 2
     | None \<Rightarrow>
         rainChance 118000 (Some (record_of damp_day)) =
           (if rain \<lparr>rain = None :: unit option\<rparr> \<noteq> None then 10 else 0)"
    by blast
  from k(1) have "k = 0" by (simp add: first_closest_def damp_day_def)
  with k(2) have
    "of_int (rainChance 118000 (Some (record_of damp_day))) - 1 / 2
       \<le> to_double (to_double (426 / 1000) * 100) \<and>
     to_double (to_double (426 / 1000) * 100)
       < of_int (rainChance 118000 (Some (record_of damp_day))) + 1 / 2"
    by (simp add: damp_day_def at_hour_def)
  then have "rainChance 118000 (Some (record_of damp_day)) =
      \<lfloor>to_double (to_double (426 / 1000) * 100) + 1 / 2\<rfloor>"
    by (simp add: nearest_integer_unique)
  also have "\<dots> = 43" by code_simp
  finally have v4: "rainChance 118000 (Some (record_of damp_day)) = 43" .
  from t2 have r2: "rainChance 118000 (Some (record_of [])) = 0" by simp
  from c1 d1 ne ps v r1 ps3 pr v3 ps4 v4 r2 show ?thesis by blast
qed

section \<open>Five-day forecast: proofs\<close>

subsection \<open>Buckets\<close>

lemma date_absorb: "date (absorb tz f day) = date day"
  by (simp add: absorb_def Let_def split: option.splits)

lemma set_update_subset: "set (AList.update k v al) \<subseteq> insert (k, v) (set al)"
  by (induction al) auto

lemma keyed_addForecast:
  assumes "keyed dd"
  shows "keyed (addForecast tz f dd)"
proof -
  let ?k = "dayKey tz f"
  let ?day = "case map_of dd ?k of None \<Rightarrow> new_bucket (setHours0 tz (dt f * 1000)) | Some day \<Rightarrow> day"
  have d: "?k = isoDate (date ?day)"
  proof (cases "map_of dd ?k")
    case None
    then show ?thesis by (simp add: new_bucket_def dayKey_def)
  next
    case (Some day)
    then have "(?k, day) \<in> set dd" by (rule map_of_SomeD)
    with assms have "?k = isoDate (date day)" by (auto simp: keyed_def)
    with Some show ?thesis by simp
  qed
  have a: "addForecast tz f dd = AList.update ?k (absorb tz f ?day) dd"
    by (simp add: addForecast_def Let_def)
  have "distinct (map fst (AList.update ?k (absorb tz f ?day) dd))"
    using assms by (simp add: keyed_def distinct_update)
  moreover have "\<forall>(k, b) \<in> set (AList.update ?k (absorb tz f ?day) dd). k = isoDate (date b)"
  proof -
    have "\<forall>(k, b) \<in> insert (?k, absorb tz f ?day) (set dd). k = isoDate (date b)"
      using assms d by (auto simp: keyed_def date_absorb)
    with set_update_subset [of ?k "absorb tz f ?day" dd] show ?thesis by blast
  qed
  ultimately show ?thesis unfolding a keyed_def by blast
qed

lemma keyed_fold: "keyed dd \<Longrightarrow> keyed (fold (addForecast tz) fs dd)"
  by (induction fs arbitrary: dd) (simp_all add: keyed_addForecast)

lemma keyed_Nil: "keyed []"
  by (simp add: keyed_def)

lemma distinct_map_inner: "distinct (map (\<lambda>x. g (f x)) xs) \<Longrightarrow> distinct (map f xs)"
  by (induction xs) auto

lemma keyed_distinct_dates:
  assumes "keyed dd"
  shows "distinct (map date (map snd dd))"
proof -
  have "map fst dd = map (\<lambda>p. isoDate (date (snd p))) dd"
    using assms by (auto simp: keyed_def)
  with assms have "distinct (map (\<lambda>p. isoDate (date (snd p))) dd)"
    by (simp add: keyed_def)
  then have "distinct (map (\<lambda>p. date (snd p)) dd)" by (rule distinct_map_inner)
  then show ?thesis by (simp add: comp_def)
qed

subsection \<open>Order of the result\<close>

lemma strict_sort_key:
  assumes "distinct (map f xs)"
  shows "sorted_wrt (\<lambda>a b. f a < f b) (sort_key f xs)"
proof -
  have "mset (map f (sort_key f xs)) = mset (map f xs)" by simp
  then have "distinct (map f (sort_key f xs))"
    using assms by (simp add: mset_eq_imp_distinct_iff [of "map f (sort_key f xs)" "map f xs"])
  moreover have "sorted (map f (sort_key f xs))" by (rule sorted_sort_key)
  ultimately have "sorted_wrt (<) (map f (sort_key f xs))" by (simp add: strict_sorted_iff)
  then show ?thesis by (simp add: sorted_wrt_map)
qed

lemma sorted_wrt_take_filter:
  "sorted_wrt R xs \<Longrightarrow> sorted_wrt R (take n (filter P xs))"
  by (simp add: sorted_wrt_filter sorted_wrt_take)

lemma day_date_entries:
  "map day_date (map (day_entry tz) (List.enumerate n xs)) = map date xs"
proof -
  have "map day_date (map (day_entry tz) (List.enumerate n xs)) =
          map (date \<circ> snd) (List.enumerate n xs)"
    by (simp add: day_entry_def comp_def split: prod.splits)
  also have "\<dots> = map date (map snd (List.enumerate n xs))" by (simp only: map_map)
  also have "\<dots> = map date xs" by (simp only: map_snd_enumerate)
  finally show ?thesis .
qed

lemma fiveDayForecast_Some:
  "daily (weather wd) = Some fs \<Longrightarrow>
     fiveDayForecast tz now (Some wd) =
       map (day_entry tz) (List.enumerate 0 (shown_days tz now fs))"
  by (simp add: fiveDayForecast_def shown_days_def Let_def)

lemma shown_days_props:
  "length (shown_days tz now fs) \<le> 5"
  "\<forall>day \<in> set (shown_days tz now fs). setHours0 tz now \<le> date day"
  "sorted_wrt (<) (map date (shown_days tz now fs))"
  "set (shown_days tz now fs) \<subseteq> snd ` set (fold (addForecast tz) fs [])"
proof -
  show "length (shown_days tz now fs) \<le> 5" by (simp add: shown_days_def)
  show "\<forall>day \<in> set (shown_days tz now fs). setHours0 tz now \<le> date day"
    by (auto simp: shown_days_def dest: in_set_takeD)
  have "keyed (fold (addForecast tz) fs [])" by (rule keyed_fold [OF keyed_Nil])
  then have "distinct (map date (map snd (fold (addForecast tz) fs [])))"
    by (rule keyed_distinct_dates)
  then have "sorted_wrt (\<lambda>a b. date a < date b)
      (sort_key date (map snd (fold (addForecast tz) fs [])))"
    by (rule strict_sort_key)
  then have "sorted_wrt (\<lambda>a b. date a < date b) (shown_days tz now fs)"
    unfolding shown_days_def by (rule sorted_wrt_take_filter)
  then show "sorted_wrt (<) (map date (shown_days tz now fs))" by (simp add: sorted_wrt_map)
  show "set (shown_days tz now fs) \<subseteq> snd ` set (fold (addForecast tz) fs [])"
    by (auto simp: shown_days_def dest!: in_set_takeD)
qed

text \<open>
  C4. For every weather record, every clock and every zone, the five-day forecast has at most 5
  entries, none of a day before today (the local midnight of the clock), and the dates of
  its entries are strictly increasing.
\<close>

theorem fiveDayForecast_five_sorted_days:
  "length (fiveDayForecast tz now page_data) \<le> 5 \<and>
   (\<forall>d \<in> set (fiveDayForecast tz now page_data). \<not> day_date d < setHours0 tz now) \<and>
   sorted_wrt (<) (map day_date (fiveDayForecast tz now page_data))"
proof (cases "\<exists>wd fs. page_data = Some wd \<and> daily (weather wd) = Some fs")
  case False
  then have "fiveDayForecast tz now page_data = []"
    by (auto simp: fiveDayForecast_def split: option.splits)
  then show ?thesis by simp
next
  case True
  then obtain wd fs where w: "page_data = Some wd" "daily (weather wd) = Some fs" by blast
  have e: "fiveDayForecast tz now page_data =
      map (day_entry tz) (List.enumerate 0 (shown_days tz now fs))"
    using w by (simp add: fiveDayForecast_Some)
  have m: "map day_date (fiveDayForecast tz now page_data) = map date (shown_days tz now fs)"
    unfolding e by (rule day_date_entries)
  have a: "length (fiveDayForecast tz now page_data) \<le> 5"
    unfolding e by (simp add: shown_days_props)
  have "\<forall>x \<in> set (map date (shown_days tz now fs)). \<not> x < setHours0 tz now"
    using shown_days_props(2) [of tz now fs] by (auto simp: not_less)
  then have "\<forall>x \<in> set (map day_date (fiveDayForecast tz now page_data)). \<not> x < setHours0 tz now"
    by (simp only: m)
  then have b: "\<forall>d \<in> set (fiveDayForecast tz now page_data). \<not> day_date d < setHours0 tz now"
    by simp
  have c: "sorted_wrt (<) (map day_date (fiveDayForecast tz now page_data))"
    unfolding m by (rule shown_days_props)
  from a b c show ?thesis by blast
qed

subsection \<open>Content of a bucket\<close>

lemma map_of_addForecast:
  "map_of (addForecast tz f dd) k =
     (if dayKey tz f = k
      then Some (absorb tz f (case map_of dd k of
                                None \<Rightarrow> new_bucket (setHours0 tz (dt f * 1000))
                              | Some day \<Rightarrow> day))
      else map_of dd k)"
  by (simp add: addForecast_def Let_def update_conv')

lemma map_of_fold_addForecast:
  "map_of (fold (addForecast tz) fs dd) k =
     (case filter (\<lambda>f. dayKey tz f = k) fs of
        [] \<Rightarrow> map_of dd k
      | e # es \<Rightarrow>
          Some (fold (absorb tz) (e # es)
                  (case map_of dd k of
                     None \<Rightarrow> new_bucket (setHours0 tz (dt e * 1000))
                   | Some day \<Rightarrow> day)))"
proof (induction fs arbitrary: dd)
  case Nil
  show ?case by simp
next
  case (Cons f fs)
  show ?case
  proof (cases "dayKey tz f = k")
    case True
    then show ?thesis
      by (simp add: Cons.IH map_of_addForecast split: list.splits)
  next
    case False
    then show ?thesis
      by (simp add: Cons.IH map_of_addForecast split: list.splits)
  qed
qed

lemma date_fold_absorb: "date (fold (absorb tz) xs day) = date day"
  by (induction xs arbitrary: day) (simp_all add: date_absorb)

text \<open>
  A bucket holds the entries that share its day key, absorbed in their order; its date is
  the local midnight of the first of them.
\<close>

lemma bucket_in_dailyData:
  assumes "(k, b) \<in> set (fold (addForecast tz) fs [])"
  shows "entries_of_bucket tz (date b) fs \<noteq> [] \<and>
         b = fold (absorb tz) (entries_of_bucket tz (date b) fs) (new_bucket (date b)) \<and>
         date b = setHours0 tz (dt (hd (entries_of_bucket tz (date b) fs)) * 1000)"
proof -
  have kd: "keyed (fold (addForecast tz) fs [])" by (rule keyed_fold [OF keyed_Nil])
  then have "distinct (map fst (fold (addForecast tz) fs []))" by (simp add: keyed_def)
  with assms have m: "map_of (fold (addForecast tz) fs []) k = Some b" by simp
  then obtain e es where
    f: "filter (\<lambda>f. dayKey tz f = k) fs = e # es" and
    b: "b = fold (absorb tz) (e # es) (new_bucket (setHours0 tz (dt e * 1000)))"
    by (auto simp: map_of_fold_addForecast split: list.splits)
  have d: "date b = setHours0 tz (dt e * 1000)"
    unfolding b by (simp only: date_fold_absorb) (simp add: new_bucket_def)
  from kd assms have "k = isoDate (date b)" by (auto simp: keyed_def)
  then have "entries_of_bucket tz (date b) fs = e # es"
    using f by (simp add: entries_of_bucket_def)
  with b d show ?thesis by simp
qed

lemma shown_bucket:
  assumes "daily (weather wd) = Some fs" and "d \<in> set (fiveDayForecast tz now (Some wd))"
  shows "\<exists>n b. d = day_entry tz (n, b) \<and>
           entries_of_bucket tz (date b) fs \<noteq> [] \<and>
           b = fold (absorb tz) (entries_of_bucket tz (date b) fs) (new_bucket (date b)) \<and>
           date b = setHours0 tz (dt (hd (entries_of_bucket tz (date b) fs)) * 1000)"
proof -
  from assms obtain n b where
    d: "d = day_entry tz (n, b)" and b: "b \<in> set (shown_days tz now fs)"
    by (auto simp: fiveDayForecast_Some in_set_enumerate_eq)
  from b shown_days_props(4) [of tz now fs] obtain k where
    "(k, b) \<in> set (fold (addForecast tz) fs [])" by auto
  from bucket_in_dailyData [OF this] d show ?thesis by blast
qed

subsection \<open>The icon of a day\<close>

lemma absorb_noon:
  "noonTimeDiff (absorb tz f day) =
     (if enat (noon_distance tz f) < noonTimeDiff day then enat (noon_distance tz f)
      else noonTimeDiff day)"
  "icon (absorb tz f day) =
     (if enat (noon_distance tz f) < noonTimeDiff day then weather0 f else icon day)"
  by (simp_all add: absorb_def noon_distance_def Let_def split: option.splits)

lemma absorb_step:
  assumes "(seen = [] \<and> noonTimeDiff day = \<infinity>) \<or>
           (\<exists>i. first_closest (noon_distance tz) seen i \<and>
                noonTimeDiff day = enat (noon_distance tz (seen ! i)) \<and>
                icon day = weather0 (seen ! i))"
  shows "\<exists>i. first_closest (noon_distance tz) (seen @ [f]) i \<and>
              noonTimeDiff (absorb tz f day) = enat (noon_distance tz ((seen @ [f]) ! i)) \<and>
              icon (absorb tz f day) = weather0 ((seen @ [f]) ! i)"
  using assms
proof
  assume "seen = [] \<and> noonTimeDiff day = \<infinity>"
  then have "first_closest (noon_distance tz) (seen @ [f]) 0 \<and>
              noonTimeDiff (absorb tz f day) = enat (noon_distance tz ((seen @ [f]) ! 0)) \<and>
              icon (absorb tz f day) = weather0 ((seen @ [f]) ! 0)"
    by (simp add: absorb_noon first_closest_single)
  then show ?thesis by blast
next
  assume "\<exists>i. first_closest (noon_distance tz) seen i \<and>
                noonTimeDiff day = enat (noon_distance tz (seen ! i)) \<and>
                icon day = weather0 (seen ! i)"
  then obtain i where i: "first_closest (noon_distance tz) seen i"
    "noonTimeDiff day = enat (noon_distance tz (seen ! i))" "icon day = weather0 (seen ! i)"
    by blast
  then have il: "i < length seen" by (simp add: first_closest_def)
  show ?thesis
  proof (cases "noon_distance tz f < noon_distance tz (seen ! i)")
    case True
    with i have "first_closest (noon_distance tz) (seen @ [f]) (length seen)"
      by (simp add: first_closest_snoc_closer)
    moreover from True i have
      "noonTimeDiff (absorb tz f day) = enat (noon_distance tz ((seen @ [f]) ! length seen)) \<and>
       icon (absorb tz f day) = weather0 ((seen @ [f]) ! length seen)"
      by (simp add: absorb_noon)
    ultimately show ?thesis by blast
  next
    case False
    with i have "first_closest (noon_distance tz) (seen @ [f]) i"
      by (simp add: first_closest_snoc_keep)
    moreover from False i il have
      "noonTimeDiff (absorb tz f day) = enat (noon_distance tz ((seen @ [f]) ! i)) \<and>
       icon (absorb tz f day) = weather0 ((seen @ [f]) ! i)"
      by (simp add: absorb_noon nth_append)
    ultimately show ?thesis by blast
  qed
qed

lemma fold_absorb_icon:
  assumes "(seen = [] \<and> noonTimeDiff day = \<infinity>) \<or>
           (\<exists>i. first_closest (noon_distance tz) seen i \<and>
                noonTimeDiff day = enat (noon_distance tz (seen ! i)) \<and>
                icon day = weather0 (seen ! i))"
  shows "(seen @ es = [] \<and> noonTimeDiff (fold (absorb tz) es day) = \<infinity>) \<or>
         (\<exists>i. first_closest (noon_distance tz) (seen @ es) i \<and>
              noonTimeDiff (fold (absorb tz) es day) = enat (noon_distance tz ((seen @ es) ! i)) \<and>
              icon (fold (absorb tz) es day) = weather0 ((seen @ es) ! i))"
  using assms
proof (induction es arbitrary: seen day)
  case Nil
  then show ?case by simp
next
  case (Cons f es)
  have "\<exists>i. first_closest (noon_distance tz) (seen @ [f]) i \<and>
              noonTimeDiff (absorb tz f day) = enat (noon_distance tz ((seen @ [f]) ! i)) \<and>
              icon (absorb tz f day) = weather0 ((seen @ [f]) ! i)"
    using Cons.prems by (rule absorb_step)
  then have "(seen @ [f] = [] \<and> noonTimeDiff (absorb tz f day) = \<infinity>) \<or>
      (\<exists>i. first_closest (noon_distance tz) (seen @ [f]) i \<and>
              noonTimeDiff (absorb tz f day) = enat (noon_distance tz ((seen @ [f]) ! i)) \<and>
              icon (absorb tz f day) = weather0 ((seen @ [f]) ! i))" by blast
  from Cons.IH [OF this] show ?case by simp
qed

lemma icon_of_bucket:
  assumes "es \<noteq> []"
  shows "\<exists>i. first_closest (noon_distance tz) es i \<and>
             icon (fold (absorb tz) es (new_bucket d)) = weather0 (es ! i)"
proof -
  have "([] = [] \<and> noonTimeDiff (new_bucket d :: 'a day_bucket) = \<infinity>) \<or>
           (\<exists>i. first_closest (noon_distance tz) [] i \<and>
                noonTimeDiff (new_bucket d :: 'a day_bucket) = enat (noon_distance tz ([] ! i)) \<and>
                icon (new_bucket d :: 'a day_bucket) = weather0 ([] ! i))"
    by (simp add: new_bucket_def)
  from fold_absorb_icon [OF this, of es] assms show ?thesis by auto
qed

text \<open>
  In every zone, the icon of an entry of the result is the weather of the first entry
  closest to local noon among the entries of its bucket, those that share its day key.
\<close>

lemma fiveDayForecast_icon_of_bucket:
  assumes "daily (weather wd) = Some forecastList"
    and "d \<in> set (fiveDayForecast tz now (Some wd))"
  shows "\<exists>i. first_closest (noon_distance tz) (entries_of_bucket tz (day_date d) forecastList) i \<and>
             day_weather d = weather0 (entries_of_bucket tz (day_date d) forecastList ! i)"
proof -
  from shown_bucket [OF assms] obtain n b where
    d: "d = day_entry tz (n, b)" and
    e: "entries_of_bucket tz (date b) forecastList \<noteq> []"
       "b = fold (absorb tz) (entries_of_bucket tz (date b) forecastList) (new_bucket (date b))"
    by blast
  from icon_of_bucket [OF e(1), of tz "date b"] e(2) obtain i where
    "first_closest (noon_distance tz) (entries_of_bucket tz (date b) forecastList) i"
    "icon b = weather0 (entries_of_bucket tz (date b) forecastList ! i)" by auto
  moreover have "day_date d = date b" "day_weather d = icon b"
    by (simp_all add: d day_entry_def)
  ultimately show ?thesis by auto
qed

subsection \<open>Zones of a fixed offset\<close>

lemma isoDate_setHours0_fixed:
  "isoDate (setHours0 (fixed_offset c) t) = (t + c) div 86400000 + (- c) div 86400000"
proof -
  have "((t + c) div 86400000 * 86400000 - c) div 86400000 =
          (- c + (t + c) div 86400000 * 86400000) div 86400000"
    by (simp add: algebra_simps)
  also have "\<dots> = (t + c) div 86400000 + (- c) div 86400000"
    by simp
  finally show ?thesis
    by (simp add: isoDate_def setHours0_def LocalTime_def UTC_def fixed_offset_def)
qed

lemma same_key_same_day_fixed:
  "isoDate (setHours0 (fixed_offset c) s) = isoDate (setHours0 (fixed_offset c) t) \<longleftrightarrow>
     setHours0 (fixed_offset c) s = setHours0 (fixed_offset c) t"
proof
  assume "isoDate (setHours0 (fixed_offset c) s) = isoDate (setHours0 (fixed_offset c) t)"
  then have "(s + c) div 86400000 = (t + c) div 86400000"
    by (simp add: isoDate_setHours0_fixed)
  then show "setHours0 (fixed_offset c) s = setHours0 (fixed_offset c) t"
    by (simp add: setHours0_def LocalTime_def UTC_def fixed_offset_def)
next
  assume "setHours0 (fixed_offset c) s = setHours0 (fixed_offset c) t"
  then show "isoDate (setHours0 (fixed_offset c) s) = isoDate (setHours0 (fixed_offset c) t)"
    by simp
qed

text \<open>
  In a zone of a fixed offset a bucket is a local day, so the icon of an entry of the
  result is the weather of the first entry closest to noon among the entries of its day.
\<close>

lemma icon_closest_to_noon_fixed_offset:
  assumes "daily (weather wd) = Some forecastList"
    and "d \<in> set (fiveDayForecast (fixed_offset c) now (Some wd))"
  shows "\<exists>i. first_closest (noon_distance (fixed_offset c))
               (entries_of_day (fixed_offset c) (day_date d) forecastList) i \<and>
             day_weather d =
               weather0 (entries_of_day (fixed_offset c) (day_date d) forecastList ! i)"
proof -
  let ?tz = "fixed_offset c"
  from shown_bucket [OF assms] obtain n b where
    d: "d = day_entry ?tz (n, b)" and
    m: "date b = setHours0 ?tz (dt (hd (entries_of_bucket ?tz (date b) forecastList)) * 1000)"
    by blast
  have dd: "day_date d = date b" by (simp add: d day_entry_def)
  obtain t where t: "date b = setHours0 ?tz t" using m by blast
  have "entries_of_bucket ?tz (date b) forecastList = entries_of_day ?tz (date b) forecastList"
    unfolding entries_of_bucket_def entries_of_day_def dayKey_def t
    by (simp add: same_key_same_day_fixed)
  with fiveDayForecast_icon_of_bucket [OF assms] dd show ?thesis by simp
qed

subsection \<open>The temperatures of a day\<close>

lemma temps_absorb:
  "temps (absorb tz f day) =
     temps day @ (case js_or (main_temp f) (temp f) of None \<Rightarrow> [] | Some t \<Rightarrow> [t])"
  by (simp add: absorb_def Let_def split: option.splits)

lemma temps_fold_absorb:
  "temps (fold (absorb tz) es day) =
     temps day @ List.map_filter (\<lambda>f. js_or (main_temp f) (temp f)) es"
  by (induction es arbitrary: day) (simp_all add: temps_absorb map_filter_simps split: option.splits)

text \<open>
  What the code computes for the temperatures of a bucket: the samples are the values
  \<^verbatim>\<open>main?.temp || temp\<close> of its entries, so an entry whose \<^verbatim>\<open>main.temp\<close> is absent
  or 0 counts with its \<^verbatim>\<open>temp\<close>, and not at all when that is absent or 0 too.
\<close>

lemma fiveDayForecast_temperature_samples:
  assumes "daily (weather wd) = Some forecastList"
    and "d \<in> set (fiveDayForecast tz now (Some wd))"
    and "samples = List.map_filter (\<lambda>f. js_or (main_temp f) (temp f))
                     (entries_of_bucket tz (day_date d) forecastList)"
  shows "minTemp d = (if samples = [] then 0 else js_round (Min (set samples)))"
    and "maxTemp d = (if samples = [] then 0 else js_round (Max (set samples)))"
proof -
  from shown_bucket [OF assms(1,2)] obtain n b where
    d: "d = day_entry tz (n, b)" and
    b: "b = fold (absorb tz) (entries_of_bucket tz (date b) forecastList) (new_bucket (date b))"
    by blast
  from b have "temps b = temps (fold (absorb tz) (entries_of_bucket tz (date b) forecastList)
      (new_bucket (date b)))" by simp
  also have "\<dots> = List.map_filter (\<lambda>f. js_or (main_temp f) (temp f))
      (entries_of_bucket tz (date b) forecastList)"
    by (simp only: temps_fold_absorb) (simp add: new_bucket_def)
  finally have t: "temps b = samples"
    using assms(3) d by (simp add: day_entry_def)
  show "minTemp d = (if samples = [] then 0 else js_round (Min (set samples)))"
    and "maxTemp d = (if samples = [] then 0 else js_round (Max (set samples)))"
    using t by (simp_all add: d day_entry_def)
qed

subsection \<open>Examples\<close>

text \<open>
  Of eight days given out of order, two of them before today, the days 1 to 5 are shown,
  in order.
\<close>

theorem fiveDayForecast_five_sorted_days_witness:
  "map day_date (fiveDayForecast utc 86400000 (Some (record_of eight_days))) =
     [86400000, 172800000, 259200000, 345600000, 432000000] \<and>
   setHours0 utc 86400000 = 86400000 \<and>
   mild_forecast \<in> set (fiveDayForecast utc 86400000 (Some (record_of mild_day))) \<and>
   \<not> day_date mild_forecast < setHours0 utc 86400000 \<and>
   length (fiveDayForecast utc 86400000 (Some (record_of eight_days))) \<le> 5 \<and>
   sorted_wrt (<) (map day_date (fiveDayForecast utc 86400000 (Some (record_of eight_days))))"
proof -
  note t1 = fiveDayForecast_five_sorted_days [of utc 86400000 "Some (record_of eight_days)"]
  note t2 = fiveDayForecast_five_sorted_days [of utc 86400000 "Some (record_of mild_day)"]
  have v: "map day_date (fiveDayForecast utc 86400000 (Some (record_of eight_days))) =
     [86400000, 172800000, 259200000, 345600000, 432000000]"
    by code_simp
  have s: "setHours0 utc 86400000 = 86400000"
    by (simp add: setHours0_def LocalTime_def UTC_def utc_def)
  have "fiveDayForecast utc 86400000 (Some (record_of mild_day)) = [mild_forecast]"
    by code_simp
  then have m: "mild_forecast \<in> set (fiveDayForecast utc 86400000 (Some (record_of mild_day)))"
    by simp
  from t2 m have "\<not> day_date mild_forecast < setHours0 utc 86400000" by blast
  with t1 v s m show ?thesis by blast
qed

text \<open>
  C3 fails on the code where the zone changes its offset: the key of a bucket is the UTC
  date of the local midnight, and in London the local midnights of Sunday 31 March 2024 and
  of Monday 1 April 2024 fall on the same UTC date. The three entries of Sunday (16:00,
  19:00 and 22:00 local time) and the five of Monday land in one bucket, dated Sunday, and
  the icon shown for Sunday is the one of Monday's entry at 13:00, not the one of Sunday's
  entry closest to noon, the first.
\<close>

theorem fiveDayForecast_merges_days_at_offset_change:
  "map (\<lambda>f. (weekday europe_london (dt f * 1000), getHours europe_london (dt f * 1000),
             weather0 f)) dst_weekend =
     [(''Sunday'', 16, Some ''01d''), (''Sunday'', 19, Some ''01n''), (''Sunday'', 22, Some ''01n''),
      (''Monday'', 1, Some ''10n''), (''Monday'', 4, Some ''10n''), (''Monday'', 7, Some ''10d''),
      (''Monday'', 10, Some ''10d''), (''Monday'', 13, Some ''10d'')] \<and>
   map (\<lambda>f. (setHours0 europe_london (dt f * 1000), dayKey europe_london f)) dst_weekend =
     [(1711843200000, 19813), (1711843200000, 19813), (1711843200000, 19813),
      (1711926000000, 19813), (1711926000000, 19813), (1711926000000, 19813),
      (1711926000000, 19813), (1711926000000, 19813)] \<and>
   map (\<lambda>d. (dayName d, day_date d, day_weather d))
     (fiveDayForecast europe_london dst_sunday_afternoon (Some (record_of dst_weekend))) =
     [(''Sunday'', 1711843200000, Some ''10d'')] \<and>
   map weather0 (entries_of_day europe_london 1711843200000 dst_weekend) =
     [Some ''01d'', Some ''01n'', Some ''01n'']"
proof -
  have a: "map (\<lambda>f. (weekday europe_london (dt f * 1000), getHours europe_london (dt f * 1000),
             weather0 f)) dst_weekend =
     [(''Sunday'', 16, Some ''01d''), (''Sunday'', 19, Some ''01n''), (''Sunday'', 22, Some ''01n''),
      (''Monday'', 1, Some ''10n''), (''Monday'', 4, Some ''10n''), (''Monday'', 7, Some ''10d''),
      (''Monday'', 10, Some ''10d''), (''Monday'', 13, Some ''10d'')]"
    by code_simp
  have b: "map (\<lambda>f. (setHours0 europe_london (dt f * 1000), dayKey europe_london f)) dst_weekend =
     [(1711843200000, 19813), (1711843200000, 19813), (1711843200000, 19813),
      (1711926000000, 19813), (1711926000000, 19813), (1711926000000, 19813),
      (1711926000000, 19813), (1711926000000, 19813)]"
    by code_simp
  have c: "map (\<lambda>d. (dayName d, day_date d, day_weather d))
     (fiveDayForecast europe_london dst_sunday_afternoon (Some (record_of dst_weekend))) =
     [(''Sunday'', 1711843200000, Some ''10d'')]"
    by code_simp
  have d: "map weather0 (entries_of_day europe_london 1711843200000 dst_weekend) =
     [Some ''01d'', Some ''01n'', Some ''01n'']"
    by code_simp
  from a b c d show ?thesis by blast
qed

text \<open>
  C2 fails on the code: an entry whose temperature is exactly 0 gives no sample, because
  \<^verbatim>\<open>forecast.main?.temp || forecast.temp\<close> takes 0 for absent. A day with the
  temperatures 0 and 5 gets the minimum 5, not 0.
\<close>

theorem fiveDayForecast_drops_zero_temperature:
  "map (\<lambda>f. main_temp f) freezing_day = [Some 0, Some 5] \<and>
   map (\<lambda>d. (minTemp d, maxTemp d))
     (fiveDayForecast utc 86400000 (Some (record_of freezing_day))) = [(5, 5)]"
proof -
  have a: "map (\<lambda>f. main_temp f) freezing_day = [Some 0, Some 5]"
    by (simp add: freezing_day_def at_hour_def)
  have b: "map (\<lambda>d. (minTemp d, maxTemp d))
     (fiveDayForecast utc 86400000 (Some (record_of freezing_day))) = [(5, 5)]"
    by code_simp
  from a b show ?thesis by blast
qed

section \<open>Current location: proofs\<close>

lemma attempts_two: "geolocationAttempts = [low_accuracy, high_accuracy]"
  by (simp add: geolocationAttempts_def low_accuracy_def high_accuracy_def)

lemma locate_unrolled:
  "locate geo =
     (case geo low_accuracy of
        Inr (Some p) \<Rightarrow> (Inr p, [low_accuracy])
      | Inr None \<Rightarrow>
          (case geo high_accuracy of
             Inr (Some p) \<Rightarrow> (Inr p, [low_accuracy, high_accuracy])
           | Inr None \<Rightarrow>
               (Inl (Error ''Unable to determine location after multiple attempts''),
                [low_accuracy, high_accuracy])
           | Inl e2 \<Rightarrow> (Inl e2, [low_accuracy, high_accuracy]))
      | Inl e1 \<Rightarrow>
          (case geo high_accuracy of
             Inr (Some p) \<Rightarrow> (Inr p, [low_accuracy, high_accuracy])
           | Inr None \<Rightarrow> (Inl e1, [low_accuracy, high_accuracy])
           | Inl e2 \<Rightarrow> (Inl e2, [low_accuracy, high_accuracy])))"
  by (simp add: locate_def attempts_two split: sum.splits option.splits)

lemma handle_fields:
  "position_requests (handleCurrentLocation (Some geo) fetch API_KEY gwd st) =
     position_requests st @ snd (locate geo)"
  "weather_requests (handleCurrentLocation (Some geo) fetch API_KEY gwd st) =
     weather_requests st @
       (case fst (locate geo) of
          Inl err \<Rightarrow> []
        | Inr p \<Rightarrow> [(latitude (coords p), longitude (coords p))])"
  by (simp_all add: handleCurrentLocation_def applyWeatherData_def Let_def
      split: sum.splits prod.splits)

lemma handle_result:
  "fst (locate geo) = Inl err \<Longrightarrow>
     error (handleCurrentLocation (Some geo) fetch API_KEY gwd st) =
       Some (location_error_message err) \<and>
     weatherData (handleCurrentLocation (Some geo) fetch API_KEY gwd st) = weatherData st"
  "fst (locate geo) = Inr p \<Longrightarrow>
     gwd (latitude (coords p)) (longitude (coords p)) = Inr w \<Longrightarrow>
     weatherData (handleCurrentLocation (Some geo) fetch API_KEY gwd st) =
       Some \<lparr>location =
              \<lparr>lat = latitude (coords p), lon = longitude (coords p),
               name = info_name (reverse_geocode fetch API_KEY (latitude (coords p)) (longitude (coords p))),
               country = info_country (reverse_geocode fetch API_KEY (latitude (coords p)) (longitude (coords p))),
               state = Some (info_state (reverse_geocode fetch API_KEY (latitude (coords p)) (longitude (coords p))))\<rparr>,
             weather = w\<rparr>"
  by (cases "locate geo";
      simp add: handleCurrentLocation_def applyWeatherData_def getWeatherByCoordinates_def Let_def)+

lemma handle_applied:
  assumes "fst (locate geo) = Inr p"
    and "gwd (latitude (coords p)) (longitude (coords p)) = Inr w"
  shows "let la = latitude (coords p);
             lo = longitude (coords p);
             info = reverse_geocode fetch API_KEY la lo;
             data = \<lparr>location = \<lparr>lat = la, lon = lo, name = info_name info,
                       country = info_country info, state = Some (info_state info)\<rparr>,
                     weather = w\<rparr>;
             st' = handleCurrentLocation (Some geo) fetch API_KEY gwd st
         in weatherData st' = Some data \<and> saved_weather st' = Doc data \<and>
            history st' = addToSearchHistory data (history st) \<and> error st' = None"
  using assms
  by (cases "locate geo")
    (simp add: handleCurrentLocation_def applyWeatherData_def getWeatherByCoordinates_def Let_def)

lemma handle_weather_failed:
  assumes "fst (locate geo) = Inr p"
    and "gwd (latitude (coords p)) (longitude (coords p)) = Inl e"
  shows "weatherData (handleCurrentLocation (Some geo) fetch API_KEY gwd st) = weatherData st"
    and "error (handleCurrentLocation (Some geo) fetch API_KEY gwd st) =
           Some (location_error_message e)"
  using assms
  by (cases "locate geo";
      simp add: handleCurrentLocation_def applyWeatherData_def getWeatherByCoordinates_def Let_def)+

text \<open>
  C9. The attempts are the low-accuracy options (10 s, positions up to 300 s old) and then
  the high-accuracy options (20 s, no cached position). The loop stops at the first
  position; the second request is made only when the first gave none. When neither gives
  a position, what is thrown is the error of the last attempt that failed, or the generic
  error when none did; the handler then shows the message of that error and leaves the
  weather as it was. With a position, the handler asks the weather service for the
  coordinates of that position, once; the weather it shows, stores and adds to the history
  is what the service returned for these coordinates, under the place name of the reverse
  geocoding, and when the service fails its error is shown. A device that times out first
  and then finds a position gets two position requests, and the weather shown is the one
  of that position.
\<close>

theorem current_location_two_attempts:
  "geolocationAttempts = [low_accuracy, high_accuracy] \<and>
   low_accuracy = \<lparr>enableHighAccuracy = False, timeout = 10000, maximumAge = 300000\<rparr> \<and>
   high_accuracy = \<lparr>enableHighAccuracy = True, timeout = 20000, maximumAge = 0\<rparr> \<and>
   locate geo =
     (case geo low_accuracy of
        Inr (Some p) \<Rightarrow> (Inr p, [low_accuracy])
      | Inr None \<Rightarrow>
          (case geo high_accuracy of
             Inr (Some p) \<Rightarrow> (Inr p, [low_accuracy, high_accuracy])
           | Inr None \<Rightarrow>
               (Inl (Error ''Unable to determine location after multiple attempts''),
                [low_accuracy, high_accuracy])
           | Inl e2 \<Rightarrow> (Inl e2, [low_accuracy, high_accuracy]))
      | Inl e1 \<Rightarrow>
          (case geo high_accuracy of
             Inr (Some p) \<Rightarrow> (Inr p, [low_accuracy, high_accuracy])
           | Inr None \<Rightarrow> (Inl e1, [low_accuracy, high_accuracy])
           | Inl e2 \<Rightarrow> (Inl e2, [low_accuracy, high_accuracy]))) \<and>
   position_requests (handleCurrentLocation (Some geo) fetch API_KEY getWeatherData st) =
     position_requests st @ snd (locate geo) \<and>
   weather_requests (handleCurrentLocation (Some geo) fetch API_KEY getWeatherData st) =
     weather_requests st @
       (case fst (locate geo) of
          Inl err \<Rightarrow> []
        | Inr p \<Rightarrow> [(latitude (coords p), longitude (coords p))]) \<and>
   (fst (locate geo) = Inl err \<longrightarrow>
      error (handleCurrentLocation (Some geo) fetch API_KEY getWeatherData st) =
        Some (location_error_message err) \<and>
      weatherData (handleCurrentLocation (Some geo) fetch API_KEY getWeatherData st) =
        weatherData st) \<and>
   (fst (locate geo) = Inr found \<and>
    getWeatherData (latitude (coords found)) (longitude (coords found)) = Inr w \<longrightarrow>
      (let la = latitude (coords found);
           lo = longitude (coords found);
           info = reverse_geocode fetch API_KEY la lo;
           data = \<lparr>location = \<lparr>lat = la, lon = lo, name = info_name info,
                     country = info_country info, state = Some (info_state info)\<rparr>,
                   weather = w\<rparr>;
           st' = handleCurrentLocation (Some geo) fetch API_KEY getWeatherData st
       in weatherData st' = Some data \<and> saved_weather st' = Doc data \<and>
          history st' = addToSearchHistory data (history st) \<and> error st' = None)) \<and>
   (fst (locate geo) = Inr found \<and>
    getWeatherData (latitude (coords found)) (longitude (coords found)) = Inl e \<longrightarrow>
      error (handleCurrentLocation (Some geo) fetch API_KEY getWeatherData st) =
        Some (location_error_message e) \<and>
      weatherData (handleCurrentLocation (Some geo) fetch API_KEY getWeatherData st) =
        weatherData st) \<and>
   (geo low_accuracy = Inl e1 \<and> geo high_accuracy = Inr (Some found) \<longrightarrow>
      fst (locate geo) = Inr found \<and>
      position_requests (handleCurrentLocation (Some geo) fetch API_KEY getWeatherData st) =
        position_requests st @ [low_accuracy, high_accuracy] \<and>
      weather_requests (handleCurrentLocation (Some geo) fetch API_KEY getWeatherData st) =
        weather_requests st @ [(latitude (coords found), longitude (coords found))])"
proof -
  note u = locate_unrolled [of geo]
  have e: "fst (locate geo) = Inl err \<longrightarrow>
      error (handleCurrentLocation (Some geo) fetch API_KEY getWeatherData st) =
        Some (location_error_message err) \<and>
      weatherData (handleCurrentLocation (Some geo) fetch API_KEY getWeatherData st) =
        weatherData st"
    by (simp add: handle_result)
  have a: "fst (locate geo) = Inr found \<and>
    getWeatherData (latitude (coords found)) (longitude (coords found)) = Inr w \<longrightarrow>
      (let la = latitude (coords found);
           lo = longitude (coords found);
           info = reverse_geocode fetch API_KEY la lo;
           data = \<lparr>location = \<lparr>lat = la, lon = lo, name = info_name info,
                     country = info_country info, state = Some (info_state info)\<rparr>,
                   weather = w\<rparr>;
           st' = handleCurrentLocation (Some geo) fetch API_KEY getWeatherData st
       in weatherData st' = Some data \<and> saved_weather st' = Doc data \<and>
          history st' = addToSearchHistory data (history st) \<and> error st' = None)"
  proof
    assume "fst (locate geo) = Inr found \<and>
      getWeatherData (latitude (coords found)) (longitude (coords found)) = Inr w"
    then have "fst (locate geo) = Inr found"
      "getWeatherData (latitude (coords found)) (longitude (coords found)) = Inr w"
      by simp_all
    then show "let la = latitude (coords found);
           lo = longitude (coords found);
           info = reverse_geocode fetch API_KEY la lo;
           data = \<lparr>location = \<lparr>lat = la, lon = lo, name = info_name info,
                     country = info_country info, state = Some (info_state info)\<rparr>,
                   weather = w\<rparr>;
           st' = handleCurrentLocation (Some geo) fetch API_KEY getWeatherData st
       in weatherData st' = Some data \<and> saved_weather st' = Doc data \<and>
          history st' = addToSearchHistory data (history st) \<and> error st' = None"
      by (rule handle_applied)
  qed
  have f: "fst (locate geo) = Inr found \<and>
    getWeatherData (latitude (coords found)) (longitude (coords found)) = Inl e \<longrightarrow>
      error (handleCurrentLocation (Some geo) fetch API_KEY getWeatherData st) =
        Some (location_error_message e) \<and>
      weatherData (handleCurrentLocation (Some geo) fetch API_KEY getWeatherData st) =
        weatherData st"
    by (simp add: handle_weather_failed)
  have s: "geo low_accuracy = Inl e1 \<and> geo high_accuracy = Inr (Some found) \<longrightarrow>
      fst (locate geo) = Inr found \<and>
      position_requests (handleCurrentLocation (Some geo) fetch API_KEY getWeatherData st) =
        position_requests st @ [low_accuracy, high_accuracy] \<and>
      weather_requests (handleCurrentLocation (Some geo) fetch API_KEY getWeatherData st) =
        weather_requests st @ [(latitude (coords found), longitude (coords found))]"
    by (simp add: handle_fields locate_unrolled)
  have l1: "low_accuracy = \<lparr>enableHighAccuracy = False, timeout = 10000, maximumAge = 300000\<rparr>"
    and l2: "high_accuracy = \<lparr>enableHighAccuracy = True, timeout = 20000, maximumAge = 0\<rparr>"
    by (simp_all add: low_accuracy_def high_accuracy_def)
  note h = handle_fields [of geo fetch API_KEY getWeatherData st]
  show ?thesis
    by (intro conjI) (fact attempts_two l1 l2 u h e a f s)+
qed

text \<open>
  A timeout and then a position at (51.5, -0.12): the weather shown is the one the service
  reports for (51.5, -0.12), under the name London. A device whose second attempt reports
  the position unavailable: that error's message is shown.
\<close>

theorem current_location_two_attempts_witness:
  "slow_device low_accuracy = Inl (PositionError 3 ''Timeout expired'') \<and>
   slow_device high_accuracy = Inr (Some in_london) \<and>
   measured_at (515 / 10) (- 12 / 100) = Inr (515 / 10, - 12 / 100) \<and>
   position_requests (handleCurrentLocation (Some slow_device) knows_london ''k'' measured_at blank_page) =
     [low_accuracy, high_accuracy] \<and>
   weather_requests (handleCurrentLocation (Some slow_device) knows_london ''k'' measured_at blank_page) =
     [(515 / 10, - 12 / 100)] \<and>
   weatherData (handleCurrentLocation (Some slow_device) knows_london ''k'' measured_at blank_page) =
     Some \<lparr>location = \<lparr>lat = 515 / 10, lon = - 12 / 100, name = ''London'', country = ''GB'',
                       state = Some []\<rparr>,
           weather = (515 / 10, - 12 / 100)\<rparr> \<and>
   fst (locate dead_device) = Inl (PositionError 2 ''Position unavailable'') \<and>
   error (handleCurrentLocation (Some dead_device) knows_london ''k'' measured_at blank_page) =
     Some ''Unable to determine your location. Try searching for your city manually.'' \<and>
   weatherData (handleCurrentLocation (Some dead_device) knows_london ''k'' measured_at blank_page) = None"
proof -
  note t1 = current_location_two_attempts [of slow_device knows_london "''k''" measured_at blank_page
    "PositionError 2 ''Position unavailable''" in_london "(515 / 10, - 12 / 100)"
    "Error []" "PositionError 3 ''Timeout expired''"]
  note t2 = current_location_two_attempts [of dead_device knows_london "''k''" measured_at blank_page
    "PositionError 2 ''Position unavailable''" in_london "(515 / 10, - 12 / 100)"
    "Error []" "PositionError 3 ''Timeout expired''"]
  have h1: "slow_device low_accuracy = Inl (PositionError 3 ''Timeout expired'') \<and>
      slow_device high_accuracy = Inr (Some in_london)"
    by (simp add: slow_device_def low_accuracy_def high_accuracy_def)
  have b: "position_requests blank_page = [] \<and> weather_requests blank_page = [] \<and>
      weatherData blank_page = None"
    by (simp add: blank_page_def)
  have c: "latitude (coords in_london) = 515 / 10 \<and> longitude (coords in_london) = - 12 / 100"
    by (simp add: in_london_def)
  have m: "measured_at (515 / 10) (- 12 / 100) = Inr (515 / 10, - 12 / 100)"
    by (simp add: measured_at_def)
  from t1 h1 have r1:
    "fst (locate slow_device) = Inr in_london \<and>
     position_requests (handleCurrentLocation (Some slow_device) knows_london ''k'' measured_at blank_page) =
       position_requests blank_page @ [low_accuracy, high_accuracy] \<and>
     weather_requests (handleCurrentLocation (Some slow_device) knows_london ''k'' measured_at blank_page) =
       weather_requests blank_page @ [(latitude (coords in_london), longitude (coords in_london))]"
    by blast
  have g: "reverse_geocode knows_london ''k'' (latitude (coords in_london))
        (longitude (coords in_london)) =
      \<lparr>info_name = ''London'', info_country = ''GB'', info_state = []\<rparr>"
    by (simp add: reverse_geocode_def knows_london_def ok_def london_def Let_def)
  have m': "measured_at (latitude (coords in_london)) (longitude (coords in_london)) =
        Inr (515 / 10, - 12 / 100)"
    by (simp add: measured_at_def in_london_def)
  from r1 m' have "fst (locate slow_device) = Inr in_london \<and>
      measured_at (latitude (coords in_london)) (longitude (coords in_london)) =
        Inr (515 / 10, - 12 / 100)"
    by blast
  with t1 have "let la = latitude (coords in_london);
           lo = longitude (coords in_london);
           info = reverse_geocode knows_london ''k'' la lo;
           data = \<lparr>location = \<lparr>lat = la, lon = lo, name = info_name info,
                     country = info_country info, state = Some (info_state info)\<rparr>,
                   weather = (515 / 10, - 12 / 100)\<rparr>;
           st' = handleCurrentLocation (Some slow_device) knows_london ''k'' measured_at blank_page
       in weatherData st' = Some data \<and> saved_weather st' = Doc data \<and>
          history st' = addToSearchHistory data (history blank_page) \<and> error st' = None"
    by blast
  then have w: "weatherData (handleCurrentLocation (Some slow_device) knows_london ''k'' measured_at blank_page) =
     Some \<lparr>location = \<lparr>lat = 515 / 10, lon = - 12 / 100, name = ''London'', country = ''GB'',
                       state = Some []\<rparr>,
           weather = (515 / 10, - 12 / 100)\<rparr>"
    unfolding Let_def g by (simp add: in_london_def)
  have d: "dead_device low_accuracy = Inl (PositionError 3 ''Timeout expired'') \<and>
      dead_device high_accuracy = Inl (PositionError 2 ''Position unavailable'')"
    by (simp add: dead_device_def low_accuracy_def high_accuracy_def)
  from t2 have "locate dead_device =
     (case dead_device low_accuracy of
        Inr (Some p) \<Rightarrow> (Inr p, [low_accuracy])
      | Inr None \<Rightarrow>
          (case dead_device high_accuracy of
             Inr (Some p) \<Rightarrow> (Inr p, [low_accuracy, high_accuracy])
           | Inr None \<Rightarrow>
               (Inl (Error ''Unable to determine location after multiple attempts''),
                [low_accuracy, high_accuracy])
           | Inl e2 \<Rightarrow> (Inl e2, [low_accuracy, high_accuracy]))
      | Inl e1 \<Rightarrow>
          (case dead_device high_accuracy of
             Inr (Some p) \<Rightarrow> (Inr p, [low_accuracy, high_accuracy])
           | Inr None \<Rightarrow> (Inl e1, [low_accuracy, high_accuracy])
           | Inl e2 \<Rightarrow> (Inl e2, [low_accuracy, high_accuracy])))"
    by blast
  with d have h2: "fst (locate dead_device) = Inl (PositionError 2 ''Position unavailable'')"
    by simp
  with t2 have "error (handleCurrentLocation (Some dead_device) knows_london ''k'' measured_at blank_page) =
      Some (location_error_message (PositionError 2 ''Position unavailable'')) \<and>
    weatherData (handleCurrentLocation (Some dead_device) knows_london ''k'' measured_at blank_page) =
      weatherData blank_page"
    by blast
  then have r2: "error (handleCurrentLocation (Some dead_device) knows_london ''k'' measured_at blank_page) =
     Some ''Unable to determine your location. Try searching for your city manually.'' \<and>
    weatherData (handleCurrentLocation (Some dead_device) knows_london ''k'' measured_at blank_page) = None"
    by (simp add: location_error_message_def b)
  from h1 m r1 b c w h2 r2 show ?thesis by simp
qed

end
